theory Spec2Isabelle
  imports Complex_Main "HOL-Library.Sublist" "HOL-Library.Log_Nat"
begin

section \<open>Python exceptions\<close>

text \<open>
  Every \<^verbatim>\<open>raise\<close> of the source, and every exception of the Python runtime or of
  numpy that the modelled code can run into, is a value of \<open>error\<close>. The exception
  classes are the Python ones; the string is the message (for \<open>NameError\<close>, the
  undefined name). A function that can raise returns \<open>error + 'a\<close>, \<open>Inl\<close> the
  exception.
\<close>

datatype error =
    ValueError string
  | NameError string
  | AttributeError string
  | KeyError string
  | IndexError
  | TypeError
  | UnitConversionError

section \<open>Physical units (astropy.units, external)\<close>

text \<open>
  The unit algebra is an external collaborator. A unit is kept in decomposed form: the
  power of every irreducible base unit. Scale factors are left out: the guards of the
  exposure time correction only read the set of bases.
\<close>

datatype base_unit =
    Second | Metre | Kilogram | Ampere | Kelvin | Mole | Candela | Radian
  | Photon | Count | Pixel

definition all_base_units :: "base_unit list" where
  "all_base_units =
     [Second, Metre, Kilogram, Ampere, Kelvin, Mole, Candela, Radian, Photon, Count, Pixel]"

record Unit =
  powers :: "base_unit \<Rightarrow> rat"

definition base :: "base_unit \<Rightarrow> Unit" where
  "base b = \<lparr>powers = (\<lambda>x. if x = b then 1 else 0)\<rparr>"

definition u_s :: Unit where
  "u_s = base Second"

definition u_photon :: Unit where
  "u_photon = base Photon"

definition unit_mul :: "Unit \<Rightarrow> Unit \<Rightarrow> Unit" where
  "unit_mul a b = \<lparr>powers = (\<lambda>x. powers a x + powers b x)\<rparr>"

definition unit_div :: "Unit \<Rightarrow> Unit \<Rightarrow> Unit" where
  "unit_div a b = \<lparr>powers = (\<lambda>x. powers a x - powers b x)\<rparr>"

text \<open>\<^verbatim>\<open>unit.decompose()\<close>: units are stored decomposed already.\<close>

definition decompose :: "Unit \<Rightarrow> Unit" where
  "decompose a = a"

text \<open>\<^verbatim>\<open>unit.bases\<close>: the bases with a power other than zero.\<close>

definition bases :: "Unit \<Rightarrow> base_unit list" where
  "bases a = filter (\<lambda>b. powers a b \<noteq> 0) all_base_units"

section \<open>numpy arrays (external)\<close>

text \<open>
  An array is its shape and the element at each index (a list of positions, one per
  axis). A scalar is the array of shape \<open>[]\<close>. The element type is a parameter:
  the source divides and multiplies whatever the arrays hold.
\<close>

record 'a ndarray =
  shape :: "nat list"
  elem :: "nat list \<Rightarrow> 'a"

definition valid_index :: "nat list \<Rightarrow> nat list \<Rightarrow> bool" where
  "valid_index s idx = list_all2 (<) idx s"

definition np_isscalar :: "'a ndarray \<Rightarrow> bool" where
  "np_isscalar a = (shape a = [])"

text \<open>
  Broadcasting: shapes are aligned at their last axis; two lengths are compatible
  when they are equal or one of them is 1. \<open>broadcast_rev\<close> works on the reversed
  shapes.
\<close>

fun broadcast_rev :: "nat list \<Rightarrow> nat list \<Rightarrow> nat list option" where
  "broadcast_rev [] ys = Some ys"
| "broadcast_rev (x # xs) [] = Some (x # xs)"
| "broadcast_rev (x # xs) (y # ys) =
     (if x = y \<or> y = 1 then map_option ((#) x) (broadcast_rev xs ys)
      else if x = 1 then map_option ((#) y) (broadcast_rev xs ys)
      else None)"

definition broadcast_shapes :: "nat list \<Rightarrow> nat list \<Rightarrow> nat list option" where
  "broadcast_shapes s t = map_option rev (broadcast_rev (rev s) (rev t))"

text \<open>
  The index into an operand of shape \<open>s\<close> for the index \<open>idx\<close> into the broadcast
  result: the last \<open>length s\<close> positions, with 0 on every axis of length 1.
\<close>

definition bindex :: "nat list \<Rightarrow> nat list \<Rightarrow> nat list" where
  "bindex s idx =
     map (\<lambda>(d, i). if d = 1 then 0 else i) (zip s (drop (length idx - length s) idx))"

definition BROADCAST_ERROR :: string where
  "BROADCAST_ERROR = ''operands could not be broadcast together''"

definition nd_binop :: "('a \<Rightarrow> 'a \<Rightarrow> 'a) \<Rightarrow> 'a ndarray \<Rightarrow> 'a ndarray \<Rightarrow> error + 'a ndarray" where
  "nd_binop f a b =
     (case broadcast_shapes (shape a) (shape b) of
        None \<Rightarrow> Inl (ValueError BROADCAST_ERROR)
      | Some s \<Rightarrow>
          Inr \<lparr>shape = s,
               elem = (\<lambda>idx. f (elem a (bindex (shape a) idx)) (elem b (bindex (shape b) idx)))\<rparr>)"

definition nd_div :: "('a::inverse) ndarray \<Rightarrow> 'a ndarray \<Rightarrow> error + 'a ndarray" where
  "nd_div = nd_binop (/)"

definition nd_mul :: "('a::times) ndarray \<Rightarrow> 'a ndarray \<Rightarrow> error + 'a ndarray" where
  "nd_mul = nd_binop (*)"

text \<open>A list comprehension whose body can raise stops at the first exception.\<close>

fun comprehension :: "('a \<Rightarrow> error + 'b) \<Rightarrow> 'a list \<Rightarrow> error + 'b list" where
  "comprehension f [] = Inr []"
| "comprehension f (x # xs) =
     (case f x of
        Inl e \<Rightarrow> Inl e
      | Inr y \<Rightarrow> (case comprehension f xs of Inl e \<Rightarrow> Inl e | Inr ys \<Rightarrow> Inr (y # ys)))"

section \<open>Exposure time correction (raster.py)\<close>

definition APPLY_EXPOSURE_TIME_ERROR :: string where
  "APPLY_EXPOSURE_TIME_ERROR =
     ''Exposure time correction has probably already '' @
     ''been applied since the unit already includes '' @
     ''inverse time. To apply exposure time correction '' @
     ''anyway, set '' @ [CHR 0x27] @ ''force'' @ [CHR 0x27] @ '' kwarg to True.''"

definition UNDO_EXPOSURE_TIME_ERROR :: string where
  "UNDO_EXPOSURE_TIME_ERROR =
     ''Exposure time correction has probably already '' @
     ''been undone since the unit does not include '' @
     ''inverse time. To undo exposure time correction '' @
     ''anyway, set '' @ [CHR 0x27] @ ''force'' @ [CHR 0x27] @ '' kwarg to True.''"

definition calculate_exposure_time_correction ::
  "('a::inverse) ndarray list \<Rightarrow> Unit \<Rightarrow> 'a ndarray \<Rightarrow> bool \<Rightarrow> error + ('a ndarray list \<times> Unit)" where
  "calculate_exposure_time_correction old_data_arrays old_unit exposure_time force =
     (if \<not> force \<and> Second \<in> set (bases (decompose old_unit))
      then Inl (ValueError APPLY_EXPOSURE_TIME_ERROR)
      else
        (case comprehension (\<lambda>old_data. nd_div old_data exposure_time) old_data_arrays of
           Inl e \<Rightarrow> Inl e
         | Inr new_data_arrays \<Rightarrow> Inr (new_data_arrays, unit_div old_unit u_s)))"

definition uncalculate_exposure_time_correction ::
  "('a::times) ndarray list \<Rightarrow> Unit \<Rightarrow> 'a ndarray \<Rightarrow> bool \<Rightarrow> error + ('a ndarray list \<times> Unit)" where
  "uncalculate_exposure_time_correction old_data_arrays old_unit exposure_time force =
     (if \<not> force \<and> Second \<in> set (bases (decompose (unit_mul old_unit u_s)))
      then Inl (ValueError UNDO_EXPOSURE_TIME_ERROR)
      else
        (case comprehension (\<lambda>old_data. nd_mul old_data exposure_time) old_data_arrays of
           Inl e \<Rightarrow> Inl e
         | Inr new_data_arrays \<Rightarrow> Inr (new_data_arrays, unit_mul old_unit u_s)))"

section \<open>Python strings\<close>

text \<open>
  \<^verbatim>\<open>str.upper\<close>, \<^verbatim>\<open>str.lower\<close> and \<^verbatim>\<open>str.capitalize\<close>, on the ASCII letters (the
  names of the source have no other cased character).
\<close>

definition str_upper_char :: "char \<Rightarrow> char" where
  "str_upper_char c =
     (case map_of (zip ''abcdefghijklmnopqrstuvwxyz'' ''ABCDEFGHIJKLMNOPQRSTUVWXYZ'') c of
        Some d \<Rightarrow> d
      | None \<Rightarrow> c)"

definition str_lower_char :: "char \<Rightarrow> char" where
  "str_lower_char c =
     (case map_of (zip ''ABCDEFGHIJKLMNOPQRSTUVWXYZ'' ''abcdefghijklmnopqrstuvwxyz'') c of
        Some d \<Rightarrow> d
      | None \<Rightarrow> c)"

definition str_upper :: "string \<Rightarrow> string" where
  "str_upper s = map str_upper_char s"

fun str_capitalize :: "string \<Rightarrow> string" where
  "str_capitalize [] = []"
| "str_capitalize (c # cs) = str_upper_char c # map str_lower_char cs"

text \<open>\<^verbatim>\<open>sub in s\<close> on strings: \<open>sub\<close> occurs in \<open>s\<close> as a contiguous run.\<close>

fun str_in :: "string \<Rightarrow> string \<Rightarrow> bool" where
  "str_in sub [] = (sub = [])"
| "str_in sub (c # cs) = (prefix sub (c # cs) \<or> str_in sub cs)"

text \<open>
  \<^verbatim>\<open>f"{names}"\<close> for a list of strings: the \<^verbatim>\<open>repr\<close> of the list, each name in single
  quotes (no name of the source holds a quote or a backslash).
\<close>

definition str_repr :: "string \<Rightarrow> string" where
  "str_repr s = [CHR 0x27] @ s @ [CHR 0x27]"

fun str_join :: "string \<Rightarrow> string list \<Rightarrow> string" where
  "str_join sep [] = []"
| "str_join sep [x] = x"
| "str_join sep (x # y # ys) = x @ sep @ str_join sep (y # ys)"

definition format_list :: "string list \<Rightarrow> string" where
  "format_list names = ''['' @ str_join '', '' (map str_repr names) @ '']''"

text \<open>\<^verbatim>\<open>"{}".format(n)\<close> for a natural number.\<close>

fun format_nat :: "nat \<Rightarrow> string" where
  "format_nat n =
     (if n < 10 then [''0123456789'' ! n]
      else format_nat (n div 10) @ [''0123456789'' ! (n mod 10)])"

declare format_nat.simps [simp del]

section \<open>Supported coordinate names (raster.py)\<close>

definition AXIS_NOT_FOUND_ERROR :: string where
  "AXIS_NOT_FOUND_ERROR =
     '' axis not found. If in extra_coords, axis name must be supported: ''"

text \<open>
  Each list is built as in the source: the base names, then \<^verbatim>\<open>+=\<close> their upper case
  forms, then \<^verbatim>\<open>+=\<close> the capitalized forms of everything so far.
\<close>

definition with_case_variants :: "string list \<Rightarrow> string list" where
  "with_case_variants names =
     (let names = names @ map str_upper names
      in names @ map str_capitalize names)"

definition SUPPORTED_LONGITUDE_NAMES :: "string list" where
  "SUPPORTED_LONGITUDE_NAMES = with_case_variants [''.lon'', ''longitude'', ''lon'']"

definition SUPPORTED_LATITUDE_NAMES :: "string list" where
  "SUPPORTED_LATITUDE_NAMES = with_case_variants [''.lat'', ''latitude'', ''lat'']"

definition SUPPORTED_SPECTRAL_NAMES :: "string list" where
  "SUPPORTED_SPECTRAL_NAMES =
     with_case_variants [''em.wl'', ''em.energy'', ''em.freq'', ''wavelength'', ''energy'',
                         ''frequency'', ''freq'', ''lambda'']"

definition SUPPORTED_TIME_NAMES :: "string list" where
  "SUPPORTED_TIME_NAMES = with_case_variants [''time'']"

definition SUPPORTED_EXPOSURE_NAMES :: "string list" where
  "SUPPORTED_EXPOSURE_NAMES =
     with_case_variants [''exposure time'', ''exposure_time'', ''exposure times'',
                         ''exposure_times'', ''exp time'', ''exp_time'', ''exp times'',
                         ''exp_times'']"

section \<open>The class Raster (raster.py)\<close>

text \<open>
  A coordinate value is an astropy Quantity: an array and its unit. An entry of the
  extra coordinates is the dictionary \<^verbatim>\<open>{"axis": ..., "value": ...}\<close>.
\<close>

record 'a Quantity =
  q_value :: "'a ndarray"
  q_unit :: Unit

record 'a extra_coord =
  coord_axis :: "int option"
  coord_value :: "'a Quantity"

text \<open>
  The attributes of a Raster that the modelled methods read. The first six come from
  the NDCube base class: \<open>world_axis_physical_types\<close> and \<open>axis_world_coords\<close> are what
  the cube answers from its WCS, \<open>extra_coords\<close> is a dictionary or \<^verbatim>\<open>None\<close>,
  \<open>uncertainty\<close> is \<^verbatim>\<open>None\<close> or holds an array. The five names are set by
  \<^verbatim>\<open>__init__\<close>: \<^verbatim>\<open>None\<close> or the pair \<^verbatim>\<open>(axis_name, loc)\<close>. The mask, the metadata and
  the missing axes are handed on unchanged and no modelled method reads them.
\<close>

record 'a Raster =
  data :: "'a ndarray"
  world_axis_physical_types :: "string list"
  axis_world_coords :: "string \<Rightarrow> 'a Quantity"
  extra_coords :: "(string \<rightharpoonup> 'a extra_coord) option"
  unit :: Unit
  uncertainty :: "'a ndarray option"
  longitude_name :: "(string \<times> string) option"
  latitude_name :: "(string \<times> string) option"
  spectral_name :: "(string \<times> string) option"
  time_name :: "(string \<times> string) option"
  exposure_time_name :: "(string \<times> string) option"

text \<open>\<^verbatim>\<open>Raster.dimensions\<close>: the shape of the data (a 1-D Quantity in pixels).\<close>

definition dimensions :: "'a Raster \<Rightarrow> nat list" where
  "dimensions self = shape (data self)"

text \<open>
  The loop of \<^verbatim>\<open>_find_axis_name\<close>, from the index \<open>i\<close>. \<open>wcs_name_index\<close> is the
  list of booleans of the source; when exactly one is true, the name is the world
  axis type at that position.
\<close>

function find_axis_name_loop ::
  "string list \<Rightarrow> string list \<Rightarrow> string set option \<Rightarrow> nat \<Rightarrow> (string \<times> string) option" where
  "find_axis_name_loop supported_names world_types extra_coord_keys i =
     (if i \<ge> length supported_names then None
      else
        (let wcs_name_index = map (\<lambda>world_axis_type. str_in (supported_names ! i) world_axis_type)
                                  world_types;
             axis_name =
               (if length (filter id wcs_name_index) = 1
                then Some (world_types !
                             hd (filter (\<lambda>k. wcs_name_index ! k) [0..<length world_types]),
                           ''wcs'')
                else None);
             axis_name =
               (case axis_name of
                  Some a \<Rightarrow> Some a
                | None \<Rightarrow>
                    (case extra_coord_keys of
                       None \<Rightarrow> None
                     | Some keys \<Rightarrow>
                         if supported_names ! i \<in> keys
                         then Some (supported_names ! i, ''extra_coords'')
                         else None))
         in case axis_name of
              Some a \<Rightarrow> Some a
            | None \<Rightarrow> find_axis_name_loop supported_names world_types extra_coord_keys (i + 1)))"
  by pat_completeness auto
termination
  by (relation "measure (\<lambda>(supported_names, world_types, extra_coord_keys, i).
                            length supported_names - i)") auto

declare find_axis_name_loop.simps [simp del]

definition find_axis_name :: "'a Raster \<Rightarrow> string list \<Rightarrow> (string \<times> string) option" where
  "find_axis_name self supported_names =
     find_axis_name_loop supported_names (world_axis_physical_types self)
       (map_option dom (extra_coords self)) 0"

definition Raster_init ::
  "'a ndarray \<Rightarrow> string list \<Rightarrow> (string \<Rightarrow> 'a Quantity) \<Rightarrow> (string \<rightharpoonup> 'a extra_coord) option \<Rightarrow>
   Unit \<Rightarrow> 'a ndarray option \<Rightarrow> 'a Raster" where
  "Raster_init dat world_types world_coords extra un uncert =
     (let self = \<lparr>data = dat, world_axis_physical_types = world_types,
                  axis_world_coords = world_coords, extra_coords = extra, unit = un,
                  uncertainty = uncert, longitude_name = None, latitude_name = None,
                  spectral_name = None, time_name = None, exposure_time_name = None\<rparr>;
          self = self\<lparr>longitude_name := find_axis_name self SUPPORTED_LONGITUDE_NAMES\<rparr>;
          self = self\<lparr>latitude_name := find_axis_name self SUPPORTED_LATITUDE_NAMES\<rparr>;
          self = self\<lparr>spectral_name := find_axis_name self SUPPORTED_SPECTRAL_NAMES\<rparr>;
          self = self\<lparr>time_name := find_axis_name self SUPPORTED_TIME_NAMES\<rparr>;
          self = self\<lparr>exposure_time_name := find_axis_name self SUPPORTED_EXPOSURE_NAMES\<rparr>
      in self)"

text \<open>
  \<^verbatim>\<open>_get_axis_coord\<close>. With a \<open>coord_loc\<close> that is neither of the two strings the
  Python function falls off its end and returns \<^verbatim>\<open>None\<close>: the result is an option.
\<close>

definition get_axis_coord :: "'a Raster \<Rightarrow> string \<Rightarrow> string \<Rightarrow> error + 'a Quantity option" where
  "get_axis_coord self axis_name coord_loc =
     (if coord_loc = ''wcs'' then Inr (Some (axis_world_coords self axis_name))
      else if coord_loc = ''extra_coords'' then
        (case extra_coords self of
           None \<Rightarrow> Inl TypeError
         | Some coords \<Rightarrow>
             (case coords axis_name of
                None \<Rightarrow> Inl (KeyError axis_name)
              | Some entry \<Rightarrow> Inr (Some (coord_value entry))))
      else Inr None)"

text \<open>
  The five properties. \<^verbatim>\<open>time\<close> and \<^verbatim>\<open>lat\<close> build their message from the names
  \<^verbatim>\<open>SUPPORTED_TIMES_NAMES\<close> and \<^verbatim>\<open>SUPPORTED_LATITUDE_NAME\<close>, which the module does not
  define: evaluating the argument of \<^verbatim>\<open>ValueError\<close> raises NameError.
\<close>

definition spectral :: "'a Raster \<Rightarrow> error + 'a Quantity option" where
  "spectral self =
     (case spectral_name self of
        None \<Rightarrow> Inl (ValueError (''Spectral'' @ AXIS_NOT_FOUND_ERROR @
                                  format_list SUPPORTED_SPECTRAL_NAMES))
      | Some (axis_name, coord_loc) \<Rightarrow> get_axis_coord self axis_name coord_loc)"

definition time :: "'a Raster \<Rightarrow> error + 'a Quantity option" where
  "time self =
     (case time_name self of
        None \<Rightarrow> Inl (NameError ''SUPPORTED_TIMES_NAMES'')
      | Some (axis_name, coord_loc) \<Rightarrow> get_axis_coord self axis_name coord_loc)"

definition exposure_time :: "'a Raster \<Rightarrow> error + 'a Quantity option" where
  "exposure_time self =
     (case exposure_time_name self of
        None \<Rightarrow> Inl (ValueError (''Exposure time'' @ AXIS_NOT_FOUND_ERROR @
                                  format_list SUPPORTED_EXPOSURE_NAMES))
      | Some (axis_name, coord_loc) \<Rightarrow> get_axis_coord self axis_name coord_loc)"

definition lon :: "'a Raster \<Rightarrow> error + 'a Quantity option" where
  "lon self =
     (case longitude_name self of
        None \<Rightarrow> Inl (ValueError (''Longitude'' @ AXIS_NOT_FOUND_ERROR @
                                  format_list SUPPORTED_LONGITUDE_NAMES))
      | Some (axis_name, coord_loc) \<Rightarrow> get_axis_coord self axis_name coord_loc)"

definition lat :: "'a Raster \<Rightarrow> error + 'a Quantity option" where
  "lat self =
     (case latitude_name self of
        None \<Rightarrow> Inl (NameError ''SUPPORTED_LATITUDE_NAME'')
      | Some (axis_name, coord_loc) \<Rightarrow> get_axis_coord self axis_name coord_loc)"

section \<open>Raster.apply_exposure_time_correction (raster.py)\<close>

text \<open>
  \<^verbatim>\<open>quantity.to(u.s).value\<close>. Without scale factors the only unit that converts to
  seconds is the second itself; \<^verbatim>\<open>None\<close> has no attribute \<^verbatim>\<open>to\<close>.
\<close>

definition to_seconds_value :: "'a Quantity option \<Rightarrow> error + 'a ndarray" where
  "to_seconds_value q =
     (case q of
        None \<Rightarrow> Inl (AttributeError ''to'')
      | Some quantity \<Rightarrow>
          if q_unit quantity = u_s then Inr (q_value quantity) else Inl UnitConversionError)"

text \<open>
  \<^verbatim>\<open>a[:, np.newaxis]\<close> (\<open>k = 1\<close>) and \<^verbatim>\<open>a[:, np.newaxis, np.newaxis]\<close> (\<open>k = 2\<close>): \<open>k\<close>
  axes of length 1 after the first axis.
\<close>

definition insert_newaxes :: "nat \<Rightarrow> 'a ndarray \<Rightarrow> error + 'a ndarray" where
  "insert_newaxes k a =
     (case shape a of
        [] \<Rightarrow> Inl IndexError
      | n # rest \<Rightarrow>
          Inr \<lparr>shape = n # replicate k 1 @ rest,
               elem = (\<lambda>idx. elem a (take 1 idx @ drop (Suc k) idx))\<rparr>)"

text \<open>\<^verbatim>\<open>self.dimensions.shape\<close>: the dimensions are a 1-D array, one entry per axis.\<close>

definition dimensions_shape :: "'a Raster \<Rightarrow> nat list" where
  "dimensions_shape self = [length (dimensions self)]"

text \<open>
  The first block of \<^verbatim>\<open>apply_exposure_time_correction\<close>: the exposure time in seconds,
  reshaped so that it broadcasts with the data.
\<close>

definition get_exposure_time_s :: "'a Raster \<Rightarrow> error + 'a ndarray" where
  "get_exposure_time_s self =
     (case exposure_time self of
        Inl e \<Rightarrow> Inl e
      | Inr q \<Rightarrow>
          (case to_seconds_value q of
             Inl e \<Rightarrow> Inl e
           | Inr exposure_time_s \<Rightarrow>
               if \<not> np_isscalar exposure_time_s then
                 (if length (dimensions self) = 1 then Inr exposure_time_s
                  else if length (dimensions self) = 2 then insert_newaxes 1 exposure_time_s
                  else if length (dimensions self) = 3 then insert_newaxes 2 exposure_time_s
                  else Inl (ValueError (''Raster dimensions must be 2 or 3. Dimensions='' @
                                        format_nat (length (dimensions_shape self)))))
               else Inr exposure_time_s))"

text \<open>
  The arguments of the call are evaluated before the call: \<^verbatim>\<open>self.uncertainty.array\<close>
  raises AttributeError when the uncertainty is \<^verbatim>\<open>None\<close>. The new Raster gets the WCS and
  the extra coordinates of the old one, so \<^verbatim>\<open>__init__\<close> finds the same names.
\<close>

definition apply_exposure_time_correction ::
  "('a::{inverse,times}) Raster \<Rightarrow> bool \<Rightarrow> bool \<Rightarrow> error + 'a Raster" where
  "apply_exposure_time_correction self undo force =
     (case get_exposure_time_s self of
        Inl e \<Rightarrow> Inl e
      | Inr exposure_time_s \<Rightarrow>
          (case uncertainty self of
             None \<Rightarrow> Inl (AttributeError ''array'')
           | Some uncertainty_array \<Rightarrow>
               (case (if undo
                      then uncalculate_exposure_time_correction
                             [data self, uncertainty_array] (unit self) exposure_time_s force
                      else calculate_exposure_time_correction
                             [data self, uncertainty_array] (unit self) exposure_time_s force) of
                  Inl e \<Rightarrow> Inl e
                | Inr (new_data_arrays, new_unit) \<Rightarrow>
                    (case new_data_arrays of
                       [new_data, new_uncertainty] \<Rightarrow>
                         Inr (Raster_init new_data (world_axis_physical_types self)
                                (axis_world_coords self) (extra_coords self) new_unit
                                (Some new_uncertainty))
                     | _ \<Rightarrow> Inl IndexError))))"

section \<open>Sequences (spectrogram_sequence.py)\<close>

definition RASTER_AXIS_NAME :: string where "RASTER_AXIS_NAME = ''raster scan''"
definition SNS_AXIS_NAME :: string where "SNS_AXIS_NAME = ''temporal''"
definition SLIT_STEP_AXIS_NAME :: string where "SLIT_STEP_AXIS_NAME = ''slit step''"
definition SLIT_AXIS_NAME :: string where "SLIT_AXIS_NAME = ''position along slit''"
definition SPECTRAL_AXIS_NAME :: string where "SPECTRAL_AXIS_NAME = ''spectral''"

definition INCONSISTENT_AXES_ERROR :: string where
  "INCONSISTENT_AXES_ERROR = ''WCS, missing_axes, and/or common_axis not consistent.''"

text \<open>
  The cubes of a sequence are SpectrogramCube instances; that class is defined in
  another module. \<^verbatim>\<open>RasterSequence.__init__\<close> reads three attributes of its first cube,
  which are the fields here: \<^verbatim>\<open>data.ndim\<close>, \<^verbatim>\<open>world_axis_physical_types\<close> and
  \<^verbatim>\<open>_spectral_name\<close> (a name or \<^verbatim>\<open>None\<close>).
\<close>

record SpectrogramCube =
  cube_ndim :: nat
  cube_world_axis_physical_types :: "string list"
  cube_spectral_name :: "string option"

text \<open>
  An instance of one of the two sequence classes: the cubes, the common axis, the
  metadata and, for a RasterSequence, the array \<^verbatim>\<open>_single_scan_instrument_axes_types\<close>
  (an object array: each entry \<^verbatim>\<open>None\<close> or a string).
\<close>

datatype ('c, 'm) sequence =
    SpectrogramSequence "'c list" "int option" 'm
  | RasterSequence "'c list" "int option" 'm "string option list"

fun seq_data :: "('c, 'm) sequence \<Rightarrow> 'c list" where
  "seq_data (SpectrogramSequence d c m) = d"
| "seq_data (RasterSequence d c m t) = d"

fun seq_common_axis :: "('c, 'm) sequence \<Rightarrow> int option" where
  "seq_common_axis (SpectrogramSequence d c m) = c"
| "seq_common_axis (RasterSequence d c m t) = c"

fun seq_meta :: "('c, 'm) sequence \<Rightarrow> 'm" where
  "seq_meta (SpectrogramSequence d c m) = m"
| "seq_meta (RasterSequence d c m t) = m"

subsection \<open>Indexing of numpy arrays and tuples\<close>

text \<open>An index into a sequence of length \<open>n\<close>: negative indices count from the end.\<close>

definition py_index :: "nat \<Rightarrow> int \<Rightarrow> error + nat" where
  "py_index n i =
     (if 0 \<le> i \<and> i < int n then Inr (nat i)
      else if - int n \<le> i \<and> i < 0 then Inr (nat (int n + i))
      else Inl IndexError)"

definition py_getitem :: "'a list \<Rightarrow> int \<Rightarrow> error + 'a" where
  "py_getitem xs i = (case py_index (length xs) i of Inl e \<Rightarrow> Inl e | Inr k \<Rightarrow> Inr (xs ! k))"

text \<open>\<^verbatim>\<open>a[i] = v\<close> for an integer \<open>i\<close>.\<close>

definition np_setitem :: "'a list \<Rightarrow> int \<Rightarrow> 'a \<Rightarrow> error + 'a list" where
  "np_setitem a i v =
     (case py_index (length a) i of Inl e \<Rightarrow> Inl e | Inr k \<Rightarrow> Inr (a[k := v]))"

text \<open>
  \<^verbatim>\<open>np.where(condition)\<close> for a 1-D array of booleans: a tuple of one array, the positions that are true.
\<close>

definition np_where :: "bool list \<Rightarrow> nat list list" where
  "np_where condition = [filter (\<lambda>k. condition ! k) [0..<length condition]]"

text \<open>\<^verbatim>\<open>a[index] = v\<close> for the tuple of one array of positions that \<open>np_where\<close> returns.\<close>

definition np_setitem_where :: "'a list \<Rightarrow> nat list list \<Rightarrow> 'a \<Rightarrow> error + 'a list" where
  "np_setitem_where a index v =
     (let positions = hd index
      in if list_all (\<lambda>k. k < length a) positions
         then Inr (map (\<lambda>k. if k \<in> set positions then v else a ! k) [0..<length a])
         else Inl IndexError)"

text \<open>\<^verbatim>\<open>a[w] = v\<close> for a boolean mask \<open>w\<close> as long as \<open>a\<close>.\<close>

definition np_setitem_mask :: "'a list \<Rightarrow> bool list \<Rightarrow> 'a \<Rightarrow> 'a list" where
  "np_setitem_mask a w v = map (\<lambda>(x, b). if b then v else x) (zip a w)"

text \<open>
  \<^verbatim>\<open>a[np.array(w)]\<close> for a list of booleans \<open>w\<close>. An empty list becomes an array of floats,
  which is no index; a boolean mask must be as long as \<open>a\<close>.
\<close>

definition np_getitem_mask :: "'a list \<Rightarrow> bool list \<Rightarrow> error + 'a list" where
  "np_getitem_mask a w =
     (if w = [] then Inl IndexError
      else if length w \<noteq> length a then Inl IndexError
      else Inr (map fst (filter snd (zip a w))))"

subsection \<open>RasterSequence.__init__\<close>

definition RasterSequence_init ::
  "SpectrogramCube list \<Rightarrow> int option \<Rightarrow> 'm \<Rightarrow> error + (SpectrogramCube, 'm) sequence" where
  "RasterSequence_init data_list common_axis meta =
     (case data_list of
        [] \<Rightarrow> Inl IndexError
      | data0 # _ \<Rightarrow>
          (let types = replicate (cube_ndim data0) None
           in case (case common_axis of
                      None \<Rightarrow> Inr types
                    | Some c \<Rightarrow> np_setitem types c (Some SLIT_STEP_AXIS_NAME)) of
                Inl e \<Rightarrow> Inl e
              | Inr types \<Rightarrow>
                  (let spectral_raster_index =
                         np_where (map (\<lambda>world_type. Some world_type = cube_spectral_name data0)
                                       (cube_world_axis_physical_types data0))
                   in case (if length spectral_raster_index = 1
                            then np_setitem_where types spectral_raster_index
                                   (Some SPECTRAL_AXIS_NAME)
                            else Inr types) of
                        Inl e \<Rightarrow> Inl e
                      | Inr types \<Rightarrow>
                          (let w = map (\<lambda>t. t = None) types
                           in if length (filter id w) > 1
                              then Inl (ValueError INCONSISTENT_AXES_ERROR)
                              else Inr (RasterSequence data_list common_axis meta
                                          (np_setitem_mask types w (Some SLIT_AXIS_NAME)))))))"

subsection \<open>Slicing\<close>

text \<open>
  One entry of an index is an integer (\<^verbatim>\<open>numbers.Integral\<close>) or a slice; an index is
  one entry or a tuple of entries.
\<close>

datatype axis_item = Integral int | Slice "int option" "int option" "int option"

datatype index = Single axis_item | Tuple "axis_item list"

fun is_Integral :: "axis_item \<Rightarrow> bool" where
  "is_Integral (Integral i) = True"
| "is_Integral (Slice start stop step) = False"

definition slice_scan_axis_types ::
  "string option list \<Rightarrow> axis_item list \<Rightarrow> error + string option list" where
  "slice_scan_axis_types single_scan_axes_types item =
     (let not_int_axis_items = map (\<lambda>axis_item. \<not> is_Integral axis_item) item;
          not_int_axis_items =
            not_int_axis_items @
            replicate (length single_scan_axes_types - length not_int_axis_items) True
      in np_getitem_mask single_scan_axes_types not_int_axis_items)"

text \<open>
  What \<^verbatim>\<open>__getitem__\<close> of the base class returns: a single cube or a sequence. The
  base class is NDCubeSequence, an external collaborator: its \<^verbatim>\<open>__getitem__\<close> is the
  parameter \<open>base_getitem\<close> of the slicer.
\<close>

datatype ('c, 'm) sliced = ACube 'c | ASequence "('c, 'm) sequence"

text \<open>\<^verbatim>\<open>isinstance(result, self.seq.__class__)\<close>; RasterSequence is the subclass.\<close>

fun isinstance_of :: "('c, 'm) sliced \<Rightarrow> ('c, 'm) sequence \<Rightarrow> bool" where
  "isinstance_of (ACube c) seq = False"
| "isinstance_of (ASequence (RasterSequence d c m t)) seq = True"
| "isinstance_of (ASequence (SpectrogramSequence d c m)) (SpectrogramSequence d' c' m') = True"
| "isinstance_of (ASequence (SpectrogramSequence d c m)) (RasterSequence d' c' m' t') = False"

text \<open>
  \<^verbatim>\<open>_SequenceSlicer.__getitem__\<close>. Reading \<^verbatim>\<open>_single_scan_instrument_axes_types\<close> of a
  plain SpectrogramSequence raises AttributeError; comparing a length with \<^verbatim>\<open>None\<close>
  raises TypeError.
\<close>

definition SequenceSlicer_getitem ::
  "(('c, 'm) sequence \<Rightarrow> index \<Rightarrow> error + ('c, 'm) sliced) \<Rightarrow>
   ('c, 'm) sequence \<Rightarrow> index \<Rightarrow> error + ('c, 'm) sliced" where
  "SequenceSlicer_getitem base_getitem seq item =
     (case base_getitem seq item of
        Inl e \<Rightarrow> Inl e
      | Inr result \<Rightarrow>
          (case item of
             Single axis_item \<Rightarrow> Inr result
           | Tuple items \<Rightarrow>
               (case result of
                  ACube cube \<Rightarrow> Inr result
                | ASequence result_seq \<Rightarrow>
                    if isinstance_of result seq then
                      (case seq_common_axis seq of
                         None \<Rightarrow> Inl TypeError
                       | Some common_axis \<Rightarrow>
                           (case (if int (length items) > common_axis
                                  then (case py_getitem (drop 1 items) common_axis of
                                          Inl e \<Rightarrow> Inl e
                                        | Inr axis_item \<Rightarrow> Inr (is_Integral axis_item))
                                  else Inr False) of
                              Inl e \<Rightarrow> Inl e
                            | Inr True \<Rightarrow>
                                Inr (ASequence (SpectrogramSequence (seq_data result_seq) None
                                                  (seq_meta result_seq)))
                            | Inr False \<Rightarrow>
                                (case seq of
                                   SpectrogramSequence d c m \<Rightarrow>
                                     Inl (AttributeError ''_single_scan_instrument_axes_types'')
                                 | RasterSequence d c m types \<Rightarrow>
                                     (case slice_scan_axis_types types (drop 1 items) of
                                        Inl e \<Rightarrow> Inl e
                                      | Inr new_types \<Rightarrow>
                                          Inr (ASequence
                                                 (RasterSequence (seq_data result_seq)
                                                    (seq_common_axis result_seq)
                                                    (seq_meta result_seq) new_types))))))
                    else Inr result)))"

section \<open>IEEE binary64 arithmetic (numpy float64, external)\<close>

text \<open>
  The arrays of the instrument hold float64 numbers. A finite number is \<open>Finite m e\<close>,
  the value \<open>m * 2 ^ e\<close> with \<open>m\<close> odd (or \<open>Finite 0 0\<close>), so that equal numbers
  are equal terms. Every operation rounds the exact result to the nearest number with a
  53 bit significand, ties to even, with gradual underflow below \<open>2 ^ - 1022\<close> and
  overflow to infinity from \<open>2 ^ 1024\<close>. The sign of zero is not kept.
\<close>

datatype float64 = Finite int int | PosInf | NegInf | NaN

fun bit_length :: "nat \<Rightarrow> nat" where
  "bit_length n = (if n = 0 then 0 else Suc (bit_length (n div 2)))"

declare bit_length.simps [simp del]

function canonical :: "int \<Rightarrow> int \<Rightarrow> float64" where
  "canonical m e =
     (if m = 0 then Finite 0 0
      else if even m then canonical (m div 2) (e + 1)
      else Finite m e)"
  by pat_completeness auto
termination
  by (relation "measure (\<lambda>(m, e). nat \<bar>m\<bar>)") auto

declare canonical.simps [simp del]

definition scale2 :: "int \<Rightarrow> int" where
  "scale2 k = (if 0 \<le> k then 2 ^ nat k else 1)"

text \<open>\<open>floor_log2 n d\<close>: the integer \<open>k\<close> with \<open>2 ^ k \<le> n / d < 2 ^ (k + 1)\<close>.\<close>

definition floor_log2 :: "int \<Rightarrow> int \<Rightarrow> int" where
  "floor_log2 n d =
     (let k = int (bit_length (nat n)) - int (bit_length (nat d))
      in if d * scale2 k \<le> n * scale2 (- k) then k else k - 1)"

text \<open>\<open>n / d\<close> rounded to the nearest integer, ties to the even one.\<close>

definition div_half_even :: "int \<Rightarrow> int \<Rightarrow> int" where
  "div_half_even n d =
     (let f = n div d; r = n mod d
      in if 2 * r < d then f else if d < 2 * r then f + 1 else if even f then f else f + 1)"

text \<open>The float64 nearest to the fraction \<open>num / den\<close> (\<open>den\<close> positive).\<close>

definition round_binary64 :: "int \<Rightarrow> int \<Rightarrow> float64" where
  "round_binary64 num den =
     (if num = 0 then Finite 0 0
      else
        (let e = max (floor_log2 \<bar>num\<bar> den - 52) (- 1074);
             m = div_half_even (\<bar>num\<bar> * scale2 (- e)) (den * scale2 e)
         in if 2 ^ 2098 \<le> m * 2 ^ nat (e + 1074)
            then (if 0 < num then PosInf else NegInf)
            else canonical (sgn num * m) e))"

fun is_negative :: "float64 \<Rightarrow> bool" where
  "is_negative (Finite m e) = (m < 0)"
| "is_negative NegInf = True"
| "is_negative x = False"

fun is_zero :: "float64 \<Rightarrow> bool" where
  "is_zero (Finite m e) = (m = 0)"
| "is_zero x = False"

fun float_mul :: "float64 \<Rightarrow> float64 \<Rightarrow> float64" where
  "float_mul (Finite m1 e1) (Finite m2 e2) =
     round_binary64 (m1 * m2 * scale2 (e1 + e2)) (scale2 (- (e1 + e2)))"
| "float_mul NaN y = NaN"
| "float_mul x NaN = NaN"
| "float_mul x y =
     (if is_zero x \<or> is_zero y then NaN
      else if is_negative x = is_negative y then PosInf else NegInf)"

fun float_div :: "float64 \<Rightarrow> float64 \<Rightarrow> float64" where
  "float_div (Finite m1 e1) (Finite m2 e2) =
     (if m2 = 0 then (if m1 = 0 then NaN else if 0 < m1 then PosInf else NegInf)
      else round_binary64 (sgn m2 * m1 * scale2 (e1 - e2)) (\<bar>m2\<bar> * scale2 (e2 - e1)))"
| "float_div NaN y = NaN"
| "float_div x NaN = NaN"
| "float_div (Finite m e) y = Finite 0 0"
| "float_div x (Finite m e) = (if is_negative x = (m < 0) then PosInf else NegInf)"
| "float_div x y = NaN"

instantiation float64 :: "{times, inverse}"
begin

definition times_float64 :: "float64 \<Rightarrow> float64 \<Rightarrow> float64" where
  "times_float64 = float_mul"

definition divide_float64 :: "float64 \<Rightarrow> float64 \<Rightarrow> float64" where
  "divide_float64 = float_div"

definition inverse_float64 :: "float64 \<Rightarrow> float64" where
  "inverse_float64 x = float_div (Finite 1 0) x"

instance ..

end

section \<open>Notions of the specification\<close>

text \<open>
  The array that an element-wise operation builds when the shapes broadcast: the
  \<open>Some\<close> branch of \<open>nd_binop\<close>.
\<close>

definition broadcast_with :: "('a \<Rightarrow> 'a \<Rightarrow> 'a) \<Rightarrow> 'a ndarray \<Rightarrow> 'a ndarray \<Rightarrow> 'a ndarray" where
  "broadcast_with f b a =
     \<lparr>shape = the (broadcast_shapes (shape a) (shape b)),
      elem = (\<lambda>idx. f (elem a (bindex (shape a) idx)) (elem b (bindex (shape b) idx)))\<rparr>"

text \<open>All indices of an array of a given shape, in row-major order.\<close>

fun indices :: "nat list \<Rightarrow> nat list list" where
  "indices [] = [[]]"
| "indices (n # s) = concat (map (\<lambda>i. map ((#) i) (indices s)) [0..<n])"

text \<open>Element-wise equality of two arrays: the same shape and the same elements.\<close>

definition array_equal :: "'a ndarray \<Rightarrow> 'a ndarray \<Rightarrow> bool" where
  "array_equal a b =
     (shape a = shape b \<and> list_all (\<lambda>idx. elem a idx = elem b idx) (indices (shape a)))"

text \<open>
  The round trip of the specification: the correction applied, then undone on its
  result, with the unit that the first step returned.
\<close>

definition undo_after_apply ::
  "('a::{inverse,times}) ndarray list \<Rightarrow> Unit \<Rightarrow> 'a ndarray \<Rightarrow> bool \<Rightarrow>
   error + ('a ndarray list \<times> Unit)" where
  "undo_after_apply A U T force =
     (case calculate_exposure_time_correction A U T force of
        Inl e \<Rightarrow> Inl e
      | Inr (B, U') \<Rightarrow> uncalculate_exposure_time_correction B U' T force)"

text \<open>A unit lacks inverse time when it has no negative power of the second.\<close>

definition lacks_inverse_time :: "Unit \<Rightarrow> bool" where
  "lacks_inverse_time U = (0 \<le> powers U Second)"

text \<open>
  Axis resolution in the words of the specification. A synonym matches the primary
  coordinate system when exactly one world type contains it, and the extra coordinates
  when it is one of their keys; the binding is that of the first synonym, in declared
  order, that matches, the primary system before the extra coordinates.
\<close>

definition primary_match :: "string list \<Rightarrow> string \<Rightarrow> string option" where
  "primary_match world_types synonym =
     (case filter (str_in synonym) world_types of [world_type] \<Rightarrow> Some world_type | _ \<Rightarrow> None)"

definition extra_match :: "string set option \<Rightarrow> string \<Rightarrow> bool" where
  "extra_match keys synonym = (case keys of None \<Rightarrow> False | Some ks \<Rightarrow> synonym \<in> ks)"

definition resolve :: "string list \<Rightarrow> string set option \<Rightarrow> string list \<Rightarrow> (string \<times> string) option" where
  "resolve world_types keys synonyms =
     (case find (\<lambda>synonym. primary_match world_types synonym \<noteq> None \<or> extra_match keys synonym)
             synonyms of
        None \<Rightarrow> None
      | Some synonym \<Rightarrow>
          (case primary_match world_types synonym of
             Some world_type \<Rightarrow> Some (world_type, ''wcs'')
           | None \<Rightarrow> Some (synonym, ''extra_coords'')))"

section \<open>Example values\<close>

text \<open>A 2 by 3 array of fractions and a scalar exposure time of 2 s.\<close>

definition example_data :: "rat ndarray" where
  "example_data = \<lparr>shape = [2, 3], elem = (\<lambda>idx. of_nat (3 * hd idx + idx ! 1 + 1))\<rparr>"

definition example_time :: "rat ndarray" where
  "example_time = \<lparr>shape = [], elem = (\<lambda>idx. 2)\<rparr>"

text \<open>The float64 numbers 1 and 49, as scalars.\<close>

definition float_one :: "float64 ndarray" where
  "float_one = \<lparr>shape = [], elem = (\<lambda>idx. Finite 1 0)\<rparr>"

definition float_49 :: "float64 ndarray" where
  "float_49 = \<lparr>shape = [], elem = (\<lambda>idx. Finite 49 0)\<rparr>"

text \<open>
  A raster of 2 exposures by 3 spectral bins in photons: the WCS gives the longitude and
  the wavelength, the extra coordinates the exposure time of each exposure (2 s and
  4 s); there is no time and no latitude coordinate.
\<close>

definition example_exposure :: "rat ndarray" where
  "example_exposure = \<lparr>shape = [2], elem = (\<lambda>idx. if hd idx = 0 then 2 else 4)\<rparr>"

definition example_entry :: "rat extra_coord" where
  "example_entry =
     \<lparr>coord_axis = Some 0, coord_value = \<lparr>q_value = example_exposure, q_unit = u_s\<rparr>\<rparr>"

definition example_raster :: "rat Raster" where
  "example_raster =
     Raster_init example_data [''custom:pos.helioprojective.lon'', ''em.wl'']
       (\<lambda>axis_name. \<lparr>q_value = example_time, q_unit = base Pixel\<rparr>)
       (Some [''exposure time'' \<mapsto> example_entry])
       u_photon (Some example_data)"

text \<open>The example raster with data and uncertainty of another shape.\<close>

definition example_with_shape :: "nat list \<Rightarrow> rat Raster" where
  "example_with_shape s =
     example_raster\<lparr>data := \<lparr>shape = s, elem = (\<lambda>idx. 6)\<rparr>,
                    uncertainty := Some \<lparr>shape = s, elem = (\<lambda>idx. 1)\<rparr>\<rparr>"

text \<open>
  A cube of a raster scan: slit steps by positions along the slit by spectral bins,
  with the wavelength as its last world axis.
\<close>

definition example_cube :: SpectrogramCube where
  "example_cube =
     \<lparr>cube_ndim = 3,
      cube_world_axis_physical_types =
        [''custom:pos.helioprojective.lon'', ''custom:pos.helioprojective.lat'', ''em.wl''],
      cube_spectral_name = Some ''em.wl''\<rparr>"

text \<open>A cube of slit steps by spectral bins: no axis along the slit.\<close>

definition example_cube_2D :: SpectrogramCube where
  "example_cube_2D =
     \<lparr>cube_ndim = 2,
      cube_world_axis_physical_types = [''custom:pos.helioprojective.lon'', ''em.wl''],
      cube_spectral_name = Some ''em.wl''\<rparr>"

text \<open>
  A RasterSequence of two raster scans (3-D cubes), with the slit step axis in common,
  and what the base class returns for it in the examples: with an integer for the scan
  one sliced cube, otherwise a copy of the sequence that holds the sliced cubes (2-D ones
  in the examples).
\<close>

definition example_sequence :: "(SpectrogramCube, unit) sequence" where
  "example_sequence =
     RasterSequence [example_cube, example_cube] (Some 0) ()
       [Some ''slit step'', Some ''position along slit'', Some ''spectral'']"

definition example_base_getitem ::
  "(SpectrogramCube, unit) sequence \<Rightarrow> index \<Rightarrow> error + (SpectrogramCube, unit) sliced" where
  "example_base_getitem seq item =
     (case item of
        Tuple (Integral i # cube_item) \<Rightarrow> Inr (ACube example_cube_2D)
      | _ \<Rightarrow>
          Inr (ASequence
                 (RasterSequence [example_cube_2D, example_cube_2D] (Some 0) ()
                    [Some ''slit step'', Some ''position along slit'', Some ''spectral''])))"

section \<open>The exposure time correction of arrays\<close>

lemma comprehension_Inl: "comprehension f xs = Inl e \<Longrightarrow> \<exists>x\<in>set xs. f x = Inl e"
  by (induction xs) (auto split: sum.splits)

lemma comprehension_Inr:
  "(\<And>x. x \<in> set xs \<Longrightarrow> f x = Inr (g x)) \<Longrightarrow> comprehension f xs = Inr (map g xs)"
  by (induction xs) auto

lemma nd_binop_Inl: "nd_binop f a b = Inl e \<Longrightarrow> e = ValueError BROADCAST_ERROR"
  by (auto simp: nd_binop_def split: option.splits)

lemma nd_binop_Inr:
  "broadcast_shapes (shape a) (shape b) \<noteq> None \<Longrightarrow> nd_binop f a b = Inr (broadcast_with f b a)"
  by (auto simp: nd_binop_def broadcast_with_def)

lemma messages_distinct:
  "BROADCAST_ERROR \<noteq> APPLY_EXPOSURE_TIME_ERROR" "BROADCAST_ERROR \<noteq> UNDO_EXPOSURE_TIME_ERROR"
  by (simp_all add: BROADCAST_ERROR_def APPLY_EXPOSURE_TIME_ERROR_def UNDO_EXPOSURE_TIME_ERROR_def)

lemma Second_in_bases: "Second \<in> set (bases U) \<longleftrightarrow> powers U Second \<noteq> 0"
  by (simp add: bases_def all_base_units_def)

lemma calculate_no_guard:
  assumes "\<not> (\<not> force \<and> Second \<in> set (bases (decompose U)))"
  shows "calculate_exposure_time_correction A U T force \<noteq> Inl (ValueError APPLY_EXPOSURE_TIME_ERROR)"
proof
  assume "calculate_exposure_time_correction A U T force = Inl (ValueError APPLY_EXPOSURE_TIME_ERROR)"
  with assms have "comprehension (\<lambda>old_data. nd_div old_data T) A = Inl (ValueError APPLY_EXPOSURE_TIME_ERROR)"
    by (auto simp: calculate_exposure_time_correction_def split: sum.splits if_splits)
  then obtain a where "nd_div a T = Inl (ValueError APPLY_EXPOSURE_TIME_ERROR)"
    using comprehension_Inl by fastforce
  then show False
    using nd_binop_Inl messages_distinct(1) unfolding nd_div_def by fastforce
qed

lemma uncalculate_no_guard:
  assumes "\<not> (\<not> force \<and> Second \<in> set (bases (decompose (unit_mul U u_s))))"
  shows "uncalculate_exposure_time_correction A U T force \<noteq> Inl (ValueError UNDO_EXPOSURE_TIME_ERROR)"
proof
  assume "uncalculate_exposure_time_correction A U T force = Inl (ValueError UNDO_EXPOSURE_TIME_ERROR)"
  with assms have "comprehension (\<lambda>old_data. nd_mul old_data T) A = Inl (ValueError UNDO_EXPOSURE_TIME_ERROR)"
    by (auto simp: uncalculate_exposure_time_correction_def split: sum.splits if_splits)
  then obtain a where "nd_mul a T = Inl (ValueError UNDO_EXPOSURE_TIME_ERROR)"
    using comprehension_Inl by fastforce
  then show False
    using nd_binop_Inl messages_distinct(2) unfolding nd_mul_def by fastforce
qed

lemma calculate_divides:
  assumes "\<not> (\<not> force \<and> Second \<in> set (bases (decompose U)))"
    and "\<forall>a\<in>set A. broadcast_shapes (shape a) (shape T) \<noteq> None"
  shows "calculate_exposure_time_correction A U T force =
           Inr (map (broadcast_with (/) T) A, unit_div U u_s)"
proof -
  have "comprehension (\<lambda>old_data. nd_div old_data T) A = Inr (map (broadcast_with (/) T) A)"
    using assms(2) by (intro comprehension_Inr) (simp add: nd_div_def nd_binop_Inr)
  with assms(1) show ?thesis
    by (auto simp: calculate_exposure_time_correction_def)
qed

lemma uncalculate_multiplies:
  assumes "\<not> (\<not> force \<and> Second \<in> set (bases (decompose (unit_mul U u_s))))"
    and "\<forall>a\<in>set A. broadcast_shapes (shape a) (shape T) \<noteq> None"
  shows "uncalculate_exposure_time_correction A U T force =
           Inr (map (broadcast_with (*) T) A, unit_mul U u_s)"
proof -
  have "comprehension (\<lambda>old_data. nd_mul old_data T) A = Inr (map (broadcast_with (*) T) A)"
    using assms(2) by (intro comprehension_Inr) (simp add: nd_mul_def nd_binop_Inr)
  with assms(1) show ?thesis
    by (auto simp: uncalculate_exposure_time_correction_def)
qed

text \<open>
  Claim C2. Applying the correction raises the ValueError of the guard (the message
  \<open>APPLY_EXPOSURE_TIME_ERROR\<close>) exactly when \<open>force\<close> is false and the second is among
  the bases of the decomposed unit. Otherwise, for arrays that broadcast with the
  exposure time, every array is divided element by element by the exposure time and
  the unit returned is the old unit divided by the second.
\<close>

theorem calculate_guard_or_divide:
  "(calculate_exposure_time_correction A U T force = Inl (ValueError APPLY_EXPOSURE_TIME_ERROR))
     = (\<not> force \<and> Second \<in> set (bases (decompose U)))
   \<and> (\<not> (\<not> force \<and> Second \<in> set (bases (decompose U))) \<longrightarrow>
        (\<forall>a\<in>set A. broadcast_shapes (shape a) (shape T) \<noteq> None) \<longrightarrow>
        (\<exists>B. calculate_exposure_time_correction A U T force = Inr (B, unit_div U u_s) \<and>
             length B = length A \<and>
             (\<forall>k<length A. shape (B ! k) = the (broadcast_shapes (shape (A ! k)) (shape T)) \<and>
                (\<forall>idx. elem (B ! k) idx =
                   elem (A ! k) (bindex (shape (A ! k)) idx) / elem T (bindex (shape T) idx)))))"
proof (intro conjI impI)
  show "(calculate_exposure_time_correction A U T force = Inl (ValueError APPLY_EXPOSURE_TIME_ERROR))
     = (\<not> force \<and> Second \<in> set (bases (decompose U)))"
    using calculate_no_guard[of force U A T]
    by (cases "\<not> force \<and> Second \<in> set (bases (decompose U))")
       (simp_all add: calculate_exposure_time_correction_def)
next
  assume "\<not> (\<not> force \<and> Second \<in> set (bases (decompose U)))"
    and "\<forall>a\<in>set A. broadcast_shapes (shape a) (shape T) \<noteq> None"
  then have "calculate_exposure_time_correction A U T force =
           Inr (map (broadcast_with (/) T) A, unit_div U u_s)"
    by (rule calculate_divides)
  then show "\<exists>B. calculate_exposure_time_correction A U T force = Inr (B, unit_div U u_s) \<and>
             length B = length A \<and>
             (\<forall>k<length A. shape (B ! k) = the (broadcast_shapes (shape (A ! k)) (shape T)) \<and>
                (\<forall>idx. elem (B ! k) idx =
                   elem (A ! k) (bindex (shape (A ! k)) idx) / elem T (bindex (shape T) idx)))"
    by (intro exI[of _ "map (broadcast_with (/) T) A"]) (simp add: broadcast_with_def)
qed

theorem calculate_guard_or_divide_witness:
  "calculate_exposure_time_correction [example_data] (unit_div u_photon u_s) example_time False
     = Inl (ValueError APPLY_EXPOSURE_TIME_ERROR)
   \<and> (\<exists>B. calculate_exposure_time_correction [example_data] (unit_div u_photon u_s) example_time True
            = Inr (B, unit_div (unit_div u_photon u_s) u_s) \<and>
          shape (B ! 0) = [2, 3] \<and> elem (B ! 0) [1, 2] = 3)"
proof -
  have g: "Second \<in> set (bases (decompose (unit_div u_photon u_s)))"
    by (simp add: Second_in_bases decompose_def unit_div_def u_photon_def u_s_def base_def)
  have b: "\<forall>a\<in>set [example_data]. broadcast_shapes (shape a) (shape example_time) \<noteq> None"
    by (simp add: example_data_def example_time_def broadcast_shapes_def)
  have s: "the (broadcast_shapes (shape example_data) (shape example_time)) = [2, 3]"
    by (simp add: example_data_def example_time_def broadcast_shapes_def)
  have e: "elem example_data (bindex (shape example_data) [1, 2])
             / elem example_time (bindex (shape example_time) [1, 2]) = 3"
    by (simp add: example_data_def example_time_def bindex_def)
  from calculate_guard_or_divide[of "[example_data]" "unit_div u_photon u_s" example_time False] g
  have 1: "calculate_exposure_time_correction [example_data] (unit_div u_photon u_s) example_time False
     = Inl (ValueError APPLY_EXPOSURE_TIME_ERROR)" by simp
  from calculate_guard_or_divide[of "[example_data]" "unit_div u_photon u_s" example_time True] b
  obtain B where B: "calculate_exposure_time_correction [example_data] (unit_div u_photon u_s) example_time True
            = Inr (B, unit_div (unit_div u_photon u_s) u_s)"
     "shape (B ! 0) = the (broadcast_shapes (shape example_data) (shape example_time))"
     "\<forall>idx. elem (B ! 0) idx = elem example_data (bindex (shape example_data) idx)
             / elem example_time (bindex (shape example_time) idx)"
    by auto
  from B(2) s have "shape (B ! 0) = [2, 3]" by simp
  moreover from B(3) e have "elem (B ! 0) [1, 2] = 3" by simp
  ultimately show ?thesis using 1 B(1) by blast
qed

lemma Second_in_bases_mul:
  "Second \<in> set (bases (decompose (unit_mul U u_s))) \<longleftrightarrow> powers U Second \<noteq> - 1"
  by (simp add: Second_in_bases decompose_def unit_mul_def u_s_def base_def add_eq_0_iff2)

text \<open>
  Claim C3, as amended. Undoing the correction raises the ValueError of the guard (the
  message \<open>UNDO_EXPOSURE_TIME_ERROR\<close>) exactly when \<open>force\<close> is false and the second is
  among the bases of the decomposed product of the unit and the second. The second is
  among these bases whenever the unit lacks inverse time, and exactly when the power of
  the second in the unit is not \<open>- 1\<close>. Otherwise, for arrays that broadcast with the
  exposure time, every array is multiplied element by element by the exposure time and
  the unit returned is the old unit times the second.
\<close>

theorem uncalculate_guard_or_multiply:
  "(uncalculate_exposure_time_correction A U T force = Inl (ValueError UNDO_EXPOSURE_TIME_ERROR))
     = (\<not> force \<and> Second \<in> set (bases (decompose (unit_mul U u_s))))
   \<and> (Second \<in> set (bases (decompose (unit_mul U u_s))) = (powers U Second \<noteq> - 1))
   \<and> (lacks_inverse_time U \<longrightarrow> Second \<in> set (bases (decompose (unit_mul U u_s))))
   \<and> (\<not> (\<not> force \<and> Second \<in> set (bases (decompose (unit_mul U u_s)))) \<longrightarrow>
        (\<forall>a\<in>set A. broadcast_shapes (shape a) (shape T) \<noteq> None) \<longrightarrow>
        (\<exists>B. uncalculate_exposure_time_correction A U T force = Inr (B, unit_mul U u_s) \<and>
             length B = length A \<and>
             (\<forall>k<length A. shape (B ! k) = the (broadcast_shapes (shape (A ! k)) (shape T)) \<and>
                (\<forall>idx. elem (B ! k) idx =
                   elem (A ! k) (bindex (shape (A ! k)) idx) * elem T (bindex (shape T) idx)))))"
proof (intro conjI impI)
  show "(uncalculate_exposure_time_correction A U T force = Inl (ValueError UNDO_EXPOSURE_TIME_ERROR))
     = (\<not> force \<and> Second \<in> set (bases (decompose (unit_mul U u_s))))"
    using uncalculate_no_guard[of force U A T]
    by (cases "\<not> force \<and> Second \<in> set (bases (decompose (unit_mul U u_s)))")
       (simp_all add: uncalculate_exposure_time_correction_def)
next
  show "Second \<in> set (bases (decompose (unit_mul U u_s))) = (powers U Second \<noteq> - 1)"
    by (rule Second_in_bases_mul)
next
  assume "lacks_inverse_time U"
  then show "Second \<in> set (bases (decompose (unit_mul U u_s)))"
    by (simp add: Second_in_bases_mul lacks_inverse_time_def)
next
  assume "\<not> (\<not> force \<and> Second \<in> set (bases (decompose (unit_mul U u_s))))"
    and "\<forall>a\<in>set A. broadcast_shapes (shape a) (shape T) \<noteq> None"
  then have "uncalculate_exposure_time_correction A U T force =
           Inr (map (broadcast_with (*) T) A, unit_mul U u_s)"
    by (rule uncalculate_multiplies)
  then show "\<exists>B. uncalculate_exposure_time_correction A U T force = Inr (B, unit_mul U u_s) \<and>
             length B = length A \<and>
             (\<forall>k<length A. shape (B ! k) = the (broadcast_shapes (shape (A ! k)) (shape T)) \<and>
                (\<forall>idx. elem (B ! k) idx =
                   elem (A ! k) (bindex (shape (A ! k)) idx) * elem T (bindex (shape T) idx)))"
    by (intro exI[of _ "map (broadcast_with (*) T) A"]) (simp add: broadcast_with_def)
qed

theorem uncalculate_guard_or_multiply_witness:
  "lacks_inverse_time u_photon
   \<and> uncalculate_exposure_time_correction [example_data] u_photon example_time False
       = Inl (ValueError UNDO_EXPOSURE_TIME_ERROR)
   \<and> (\<exists>B. uncalculate_exposure_time_correction [example_data] (unit_div u_photon u_s) example_time False
            = Inr (B, unit_mul (unit_div u_photon u_s) u_s) \<and>
          shape (B ! 0) = [2, 3] \<and> elem (B ! 0) [1, 2] = 12)"
proof -
  have l: "lacks_inverse_time u_photon"
    by (simp add: lacks_inverse_time_def u_photon_def base_def)
  have g: "\<not> (\<not> False \<and> Second \<in> set (bases (decompose (unit_mul (unit_div u_photon u_s) u_s))))"
    by (simp add: Second_in_bases decompose_def unit_mul_def unit_div_def u_photon_def u_s_def base_def)
  have b: "\<forall>a\<in>set [example_data]. broadcast_shapes (shape a) (shape example_time) \<noteq> None"
    by (simp add: example_data_def example_time_def broadcast_shapes_def)
  have s: "the (broadcast_shapes (shape example_data) (shape example_time)) = [2, 3]"
    by (simp add: example_data_def example_time_def broadcast_shapes_def)
  have e: "elem example_data (bindex (shape example_data) [1, 2])
             * elem example_time (bindex (shape example_time) [1, 2]) = 12"
    by (simp add: example_data_def example_time_def bindex_def)
  from uncalculate_guard_or_multiply[of "[example_data]" u_photon example_time False] l
  have "Second \<in> set (bases (decompose (unit_mul u_photon u_s)))" by blast
  with uncalculate_guard_or_multiply[of "[example_data]" u_photon example_time False]
  have 1: "uncalculate_exposure_time_correction [example_data] u_photon example_time False
     = Inl (ValueError UNDO_EXPOSURE_TIME_ERROR)" by blast
  from uncalculate_guard_or_multiply[of "[example_data]" "unit_div u_photon u_s" example_time False] g b
  obtain B where B: "uncalculate_exposure_time_correction [example_data] (unit_div u_photon u_s) example_time False
            = Inr (B, unit_mul (unit_div u_photon u_s) u_s)"
     "shape (B ! 0) = the (broadcast_shapes (shape example_data) (shape example_time))"
     "\<forall>idx. elem (B ! 0) idx = elem example_data (bindex (shape example_data) idx)
             * elem example_time (bindex (shape example_time) idx)"
    by auto
  from B(2) s have "shape (B ! 0) = [2, 3]" by simp
  moreover from B(3) e have "elem (B ! 0) [1, 2] = 12" by simp
  ultimately show ?thesis using l 1 B(1) by blast
qed

text \<open>
  The guard of the undo direction and the lack of inverse time are not equivalent:
  for photon / s / s and \<open>force\<close> false the guard raises, the product with the second
  still has the second among its bases, and yet the unit does hold inverse time.
\<close>

theorem uncalculate_guard_counterexample:
  "uncalculate_exposure_time_correction [example_data] (unit_div (unit_div u_photon u_s) u_s)
       example_time False = Inl (ValueError UNDO_EXPOSURE_TIME_ERROR)
   \<and> Second \<in> set (bases (decompose (unit_mul (unit_div (unit_div u_photon u_s) u_s) u_s)))
   \<and> \<not> lacks_inverse_time (unit_div (unit_div u_photon u_s) u_s)"
  by (simp add: uncalculate_exposure_time_correction_def Second_in_bases decompose_def
        lacks_inverse_time_def unit_mul_def unit_div_def u_photon_def u_s_def base_def)

section \<open>Broadcasting and indices\<close>

lemma indices_valid: "idx \<in> set (indices s) \<Longrightarrow> valid_index s idx"
  unfolding valid_index_def by (induction s arbitrary: idx) auto

lemma valid_indices: "valid_index s idx \<Longrightarrow> idx \<in> set (indices s)"
  unfolding valid_index_def by (induction s arbitrary: idx) (force simp: list_all2_Cons2)+

lemma zero_unit_axes:
  "list_all2 (<) idx s \<Longrightarrow> map (\<lambda>(d, i). if d = Suc 0 then 0 else i) (zip s idx) = idx"
  by (induction rule: list_all2_induct) auto

lemma bindex_self: "valid_index s idx \<Longrightarrow> bindex s idx = idx"
  unfolding valid_index_def bindex_def
  by (frule list_all2_lengthD) (simp add: zero_unit_axes)

lemma broadcast_rev_fits:
  "broadcast_rev xs ys = Some xs \<Longrightarrow> list_all2 (<) js xs \<Longrightarrow>
   length ys \<le> length xs \<and>
   list_all2 (<) (map (\<lambda>(d, i). if d = 1 then 0 else i) (zip ys (take (length ys) js))) ys"
proof (induction xs ys arbitrary: js rule: broadcast_rev.induct)
  case (1 ys)
  then show ?case by simp
next
  case (2 x xs)
  then show ?case by simp
next
  case (3 x xs y ys)
  from "3.prems"(2) obtain i js' where js: "js = i # js'" "i < x" "list_all2 (<) js' xs"
    by (auto simp: list_all2_Cons2)
  from "3.prems"(1) have xy: "x = y \<or> y = 1" and r: "broadcast_rev xs ys = Some xs"
    by (auto split: if_splits)
  from xy r js(3) "3.IH"(1)[of js'] have
    "length ys \<le> length xs \<and>
     list_all2 (<) (map (\<lambda>(d, i). if d = 1 then 0 else i) (zip ys (take (length ys) js'))) ys"
    by blast
  with js xy show ?case by auto
qed

lemma bindex_valid:
  assumes "broadcast_shapes s t = Some s" and "valid_index s idx"
  shows "valid_index t (bindex t idx)"
proof -
  from assms(1) have r: "broadcast_rev (rev s) (rev t) = Some (rev s)"
    by (auto simp: broadcast_shapes_def)
  from assms(2) have v: "list_all2 (<) (rev idx) (rev s)" and l: "length idx = length s"
    by (simp_all add: valid_index_def list_all2_lengthD)
  from broadcast_rev_fits[OF r v] have le: "length t \<le> length s"
    and f: "list_all2 (<) (map (\<lambda>(d, i). if d = 1 then 0 else i)
                             (zip (rev t) (take (length t) (rev idx)))) (rev t)"
    by simp_all
  have "take (length t) (rev idx) = rev (drop (length idx - length t) idx)"
    using le l by (simp add: rev_drop)
  moreover have "length (drop (length idx - length t) idx) = length t"
    using le l by simp
  ultimately have "map (\<lambda>(d, i). if d = 1 then 0 else i) (zip (rev t) (take (length t) (rev idx)))
      = rev (bindex t idx)"
    by (simp add: bindex_def zip_rev rev_map)
  with f show ?thesis by (simp add: valid_index_def)
qed

section \<open>The round trip\<close>

lemma unit_div_mul_second: "unit_mul (unit_div U u_s) u_s = U"
  by (simp add: unit_mul_def unit_div_def)

lemma broadcast_with_round_trip:
  fixes T :: "('a::linordered_field) ndarray"
  assumes "broadcast_shapes (shape a) (shape T) = Some (shape a)"
    and "list_all (\<lambda>idx. 0 < elem T idx) (indices (shape T))"
  shows "array_equal (broadcast_with (*) T (broadcast_with (/) T a)) a"
proof -
  have s: "shape (broadcast_with (/) T a) = shape a"
    using assms(1) by (simp add: broadcast_with_def)
  have "elem (broadcast_with (*) T (broadcast_with (/) T a)) idx = elem a idx"
    if "idx \<in> set (indices (shape a))" for idx
  proof -
    from that have v: "valid_index (shape a) idx" by (rule indices_valid)
    then have "valid_index (shape T) (bindex (shape T) idx)"
      using assms(1) by (rule bindex_valid[rotated])
    then have "bindex (shape T) idx \<in> set (indices (shape T))" by (rule valid_indices)
    with assms(2) have "0 < elem T (bindex (shape T) idx)"
      by (simp add: list_all_iff)
    with v s show ?thesis
      by (simp add: broadcast_with_def bindex_self)
  qed
  with s assms(1) show ?thesis
    by (simp add: array_equal_def list_all_iff broadcast_with_def)
qed

text \<open>
  Claim C1, as amended. For every list of arrays, of any element arithmetic (float64
  included), every unit and every exposure time that broadcasts to the shape of each
  array, with the guards passed (\<open>force\<close> true, or no second among the bases of the
  unit): undoing the correction after applying it succeeds and returns the unit it
  started from; each returned array has the shape of the original one and holds, at
  every index, the original element divided by the exposure time and multiplied by it
  again. The returned arrays are element-wise equal to the original ones whenever
  dividing and multiplying by the exposure time gives each element back.
\<close>

theorem undo_after_apply_round_trip:
  fixes A :: "('a::{inverse,times}) ndarray list"
  assumes "force \<or> Second \<notin> set (bases (decompose U))"
    and "\<forall>a\<in>set A. broadcast_shapes (shape a) (shape T) = Some (shape a)"
  shows "\<exists>B. undo_after_apply A U T force = Inr (B, U) \<and> length B = length A \<and>
           (\<forall>k<length A. shape (B ! k) = shape (A ! k) \<and>
              (\<forall>idx. valid_index (shape (A ! k)) idx \<longrightarrow>
                 elem (B ! k) idx
                   = elem (A ! k) idx / elem T (bindex (shape T) idx)
                       * elem T (bindex (shape T) idx))) \<and>
           ((\<forall>k<length A. \<forall>idx. valid_index (shape (A ! k)) idx \<longrightarrow>
                elem (A ! k) idx / elem T (bindex (shape T) idx) * elem T (bindex (shape T) idx)
                  = elem (A ! k) idx)
            \<longrightarrow> list_all2 array_equal B A)"
proof -
  let ?B = "map (broadcast_with (/) T) A"
  let ?C = "map (broadcast_with (*) T) ?B"
  have 1: "calculate_exposure_time_correction A U T force = Inr (?B, unit_div U u_s)"
    using assms(1,2) by (intro calculate_divides) auto
  have g: "\<not> (\<not> force \<and> Second \<in> set (bases (decompose (unit_mul (unit_div U u_s) u_s))))"
    using assms(1) by (simp add: unit_div_mul_second)
  have b: "\<forall>b\<in>set ?B. broadcast_shapes (shape b) (shape T) \<noteq> None"
    using assms(2) by (simp add: broadcast_with_def)
  have 2: "uncalculate_exposure_time_correction ?B (unit_div U u_s) T force = Inr (?C, U)"
    using uncalculate_multiplies[OF g b] by (simp add: unit_div_mul_second)
  have r: "undo_after_apply A U T force = Inr (?C, U)"
    using 1 2 by (simp add: undo_after_apply_def)
  have s: "shape (?C ! k) = shape (A ! k)" if "k < length A" for k
    using that assms(2) by (simp add: broadcast_with_def)
  have e: "elem (?C ! k) idx
             = elem (A ! k) idx / elem T (bindex (shape T) idx) * elem T (bindex (shape T) idx)"
    if "k < length A" "valid_index (shape (A ! k)) idx" for k idx
    using that assms(2) by (simp add: broadcast_with_def bindex_self)
  have q: "list_all2 array_equal ?C A"
    if h: "\<forall>k<length A. \<forall>idx. valid_index (shape (A ! k)) idx \<longrightarrow>
             elem (A ! k) idx / elem T (bindex (shape T) idx) * elem T (bindex (shape T) idx)
               = elem (A ! k) idx"
  proof -
    have "array_equal (?C ! k) (A ! k)" if k: "k < length A" for k
    proof -
      have "elem (?C ! k) idx = elem (A ! k) idx" if "idx \<in> set (indices (shape (?C ! k)))" for idx
      proof -
        from that s[OF k] have "valid_index (shape (A ! k)) idx"
          by (simp add: indices_valid)
        with e[OF k] h k show ?thesis by simp
      qed
      with s[OF k] show ?thesis
        unfolding array_equal_def list_all_iff by blast
    qed
    then show ?thesis by (simp add: list_all2_conv_all_nth)
  qed
  from r s e q show ?thesis
    by (intro exI[of _ ?C]) (simp del: nth_map)
qed

theorem undo_after_apply_round_trip_witness:
  "Second \<notin> set (bases (decompose u_photon))
   \<and> broadcast_shapes (shape example_data) (shape example_time) = Some (shape example_data)
   \<and> (\<exists>B. undo_after_apply [example_data] u_photon example_time False = Inr (B, u_photon) \<and>
          list_all2 array_equal B [example_data])
   \<and> broadcast_shapes (shape float_one) (shape float_49) = Some (shape float_one)
   \<and> (\<exists>B. undo_after_apply [float_one] u_photon float_49 True = Inr (B, u_photon) \<and>
          shape (B ! 0) = [] \<and>
          elem (B ! 0) [] = Finite 1 0 / Finite 49 0 * Finite 49 0)"
proof -
  have g: "Second \<notin> set (bases (decompose u_photon))"
    by (simp add: Second_in_bases decompose_def u_photon_def base_def)
  have b: "broadcast_shapes (shape example_data) (shape example_time) = Some (shape example_data)"
    by (simp add: example_data_def example_time_def broadcast_shapes_def)
  have f: "broadcast_shapes (shape float_one) (shape float_49) = Some (shape float_one)"
    by (simp add: float_one_def float_49_def broadcast_shapes_def)
  from g have g': "False \<or> Second \<notin> set (bases (decompose u_photon))" by simp
  from b have b': "\<forall>a\<in>set [example_data].
                     broadcast_shapes (shape a) (shape example_time) = Some (shape a)" by simp
  from f have f': "\<forall>a\<in>set [float_one]. broadcast_shapes (shape a) (shape float_49) = Some (shape a)"
    by simp
  have x: "\<forall>k<length [example_data]. \<forall>idx. valid_index (shape ([example_data] ! k)) idx \<longrightarrow>
             elem ([example_data] ! k) idx / elem example_time (bindex (shape example_time) idx)
               * elem example_time (bindex (shape example_time) idx)
             = elem ([example_data] ! k) idx"
    by (simp add: example_time_def)
  from undo_after_apply_round_trip[OF g' b'] x
  have 1: "\<exists>B. undo_after_apply [example_data] u_photon example_time False = Inr (B, u_photon) \<and>
              list_all2 array_equal B [example_data]"
    by blast
  have t: "True \<or> Second \<notin> set (bases (decompose u_photon))" by simp
  from undo_after_apply_round_trip[OF t f']
  obtain B where B: "undo_after_apply [float_one] u_photon float_49 True = Inr (B, u_photon)"
    "shape (B ! 0) = shape float_one"
    "\<forall>idx. valid_index (shape float_one) idx \<longrightarrow>
       elem (B ! 0) idx = elem float_one idx / elem float_49 (bindex (shape float_49) idx)
                            * elem float_49 (bindex (shape float_49) idx)"
    by auto
  from B(2) have "shape (B ! 0) = []"
    by (simp add: float_one_def)
  moreover from B(3) have "elem (B ! 0) [] = Finite 1 0 / Finite 49 0 * Finite 49 0"
    by (simp add: float_one_def float_49_def valid_index_def)
  ultimately have 2: "\<exists>B. undo_after_apply [float_one] u_photon float_49 True = Inr (B, u_photon) \<and>
          shape (B ! 0) = [] \<and> elem (B ! 0) [] = Finite 1 0 / Finite 49 0 * Finite 49 0"
    using B(1) by blast
  from g b f 1 2 show ?thesis by blast
qed

text \<open>
  In exact arithmetic (the elements in an ordered field) dividing and multiplying by
  a positive exposure time gives every element back, and the round trip is the identity.
\<close>

lemma undo_after_apply_exact:
  fixes A :: "('a::linordered_field) ndarray list"
  assumes "force \<or> Second \<notin> set (bases (decompose U))"
    and "\<forall>a\<in>set A. broadcast_shapes (shape a) (shape T) = Some (shape a)"
    and "list_all (\<lambda>idx. 0 < elem T idx) (indices (shape T))"
  shows "\<exists>B. undo_after_apply A U T force = Inr (B, U) \<and> list_all2 array_equal B A"
proof -
  let ?B = "map (broadcast_with (/) T) A"
  let ?C = "map (broadcast_with (*) T) ?B"
  have 1: "calculate_exposure_time_correction A U T force = Inr (?B, unit_div U u_s)"
    using assms(1,2) by (intro calculate_divides) auto
  have g: "\<not> (\<not> force \<and> Second \<in> set (bases (decompose (unit_mul (unit_div U u_s) u_s))))"
    using assms(1) by (simp add: unit_div_mul_second)
  have b: "\<forall>b\<in>set ?B. broadcast_shapes (shape b) (shape T) \<noteq> None"
    using assms(2) by (simp add: broadcast_with_def)
  have 2: "uncalculate_exposure_time_correction ?B (unit_div U u_s) T force = Inr (?C, U)"
    using uncalculate_multiplies[OF g b] by (simp add: unit_div_mul_second)
  have "list_all2 array_equal ?C A"
    using assms(2,3) by (simp add: list_all2_map1 list.rel_refl_strong broadcast_with_round_trip)
  with 1 2 show ?thesis
    by (simp add: undo_after_apply_def)
qed

text \<open>
  In float64 arithmetic the round trip is not the identity: 1 divided by 49 and
  multiplied by 49 again is \<open>(2 ^ 53 - 1) / 2 ^ 53\<close>, the float64 below 1.
\<close>

lemma round_one_49th: "round_binary64 1 49 = Finite 5882252574524729 (- 58)"
proof -
  have "floor_log2 1 49 = - 6"
    by (simp add: floor_log2_def scale2_def bit_length.simps)
  moreover have "div_half_even 288230376151711744 49 = 5882252574524729"
    by (simp add: div_half_even_def)
  ultimately show ?thesis
    by (simp add: round_binary64_def scale2_def canonical.simps)
qed

lemma round_49_49ths:
  "round_binary64 288230376151711721 288230376151711744 = Finite 9007199254740991 (- 53)"
proof -
  have "floor_log2 288230376151711721 288230376151711744 = - 1"
    by (simp add: floor_log2_def scale2_def bit_length.simps)
  moreover have
    "div_half_even (288230376151711721 * 2 ^ 53) 288230376151711744 = 9007199254740991"
    by (simp add: div_half_even_def)
  ultimately show ?thesis
    by (simp add: round_binary64_def scale2_def canonical.simps)
qed

lemma float_one_49th_times_49:
  "(Finite 1 0 / Finite 49 0) * Finite 49 0 = Finite 9007199254740991 (- 53)"
  by (simp add: divide_float64_def times_float64_def scale2_def round_one_49th round_49_49ths)

theorem undo_after_apply_float64_counterexample:
  "undo_after_apply [float_one] u_photon float_49 True
     = Inr ([broadcast_with (*) float_49 (broadcast_with (/) float_49 float_one)], u_photon)
   \<and> elem (broadcast_with (*) float_49 (broadcast_with (/) float_49 float_one)) []
       = Finite 9007199254740991 (- 53)
   \<and> elem float_one [] = Finite 1 0
   \<and> \<not> list_all2 array_equal
          [broadcast_with (*) float_49 (broadcast_with (/) float_49 float_one)] [float_one]"
proof -
  have b: "\<forall>a\<in>set [float_one]. broadcast_shapes (shape a) (shape float_49) \<noteq> None"
    by (simp add: float_one_def float_49_def broadcast_shapes_def)
  have 1: "calculate_exposure_time_correction [float_one] u_photon float_49 True
             = Inr ([broadcast_with (/) float_49 float_one], unit_div u_photon u_s)"
    using calculate_divides[OF _ b, of True u_photon] by simp
  have b': "\<forall>a\<in>set [broadcast_with (/) float_49 float_one].
              broadcast_shapes (shape a) (shape float_49) \<noteq> None"
    by (simp add: broadcast_with_def float_one_def float_49_def broadcast_shapes_def)
  have 2: "uncalculate_exposure_time_correction [broadcast_with (/) float_49 float_one]
             (unit_div u_photon u_s) float_49 True
             = Inr ([broadcast_with (*) float_49 (broadcast_with (/) float_49 float_one)], u_photon)"
    using uncalculate_multiplies[OF _ b', of True "unit_div u_photon u_s"]
    by (simp add: unit_div_mul_second)
  have e: "elem (broadcast_with (*) float_49 (broadcast_with (/) float_49 float_one)) []
             = Finite 9007199254740991 (- 53)"
    using float_one_49th_times_49
    by (simp add: broadcast_with_def float_one_def float_49_def broadcast_shapes_def bindex_def)
  have o: "elem float_one [] = Finite 1 0"
    by (simp add: float_one_def)
  from e o have "\<not> array_equal (broadcast_with (*) float_49 (broadcast_with (/) float_49 float_one))
                    float_one"
    by (simp add: array_equal_def float_one_def)
  with 1 2 e o show ?thesis
    by (simp add: undo_after_apply_def)
qed

section \<open>Axis names\<close>

lemma filter_by_position:
  "filter P xs = map ((!) xs) (filter (\<lambda>k. map P xs ! k) [0..<length xs])"
proof -
  have "filter P xs = filter P (map ((!) xs) [0..<length xs])"
    by (simp add: map_nth)
  also have "\<dots> = map ((!) xs) (filter (P \<circ> (!) xs) [0..<length xs])"
    by (simp only: filter_map)
  also have "filter (P \<circ> (!) xs) [0..<length xs] = filter (\<lambda>k. map P xs ! k) [0..<length xs]"
    by (rule filter_cong) auto
  finally show ?thesis .
qed

lemma count_true: "length (filter id (map P xs)) = length (filter P xs)"
  by (simp add: filter_map comp_def)

lemma primary_match_position:
  "primary_match world_types synonym =
     (if length (filter id (map (str_in synonym) world_types)) = 1
      then Some (world_types !
                   hd (filter (\<lambda>k. map (str_in synonym) world_types ! k) [0..<length world_types]))
      else None)"
proof (cases "filter (str_in synonym) world_types")
  case Nil
  then show ?thesis by (simp add: primary_match_def count_true)
next
  case (Cons t ts)
  show ?thesis
  proof (cases ts)
    case Nil
    with Cons have one: "filter (str_in synonym) world_types = [t]" by simp
    then have "map ((!) world_types)
                 (filter (\<lambda>k. map (str_in synonym) world_types ! k) [0..<length world_types]) = [t]"
      using filter_by_position[of "str_in synonym" world_types] by simp
    then have "world_types !
                 hd (filter (\<lambda>k. map (str_in synonym) world_types ! k) [0..<length world_types]) = t"
      by (cases "filter (\<lambda>k. map (str_in synonym) world_types ! k) [0..<length world_types]") auto
    with one show ?thesis by (simp add: primary_match_def count_true)
  next
    case (Cons t' ts')
    with \<open>filter (str_in synonym) world_types = t # ts\<close> show ?thesis
      by (simp add: primary_match_def count_true)
  qed
qed

lemma find_axis_name_loop_resolve:
  "find_axis_name_loop supported_names world_types keys i
     = resolve world_types keys (drop i supported_names)"
proof (induction supported_names world_types keys i rule: find_axis_name_loop.induct)
  case (1 supported_names world_types keys i)
  show ?case
  proof (cases "i \<ge> length supported_names")
    case True
    then show ?thesis
      by (simp add: find_axis_name_loop.simps[of supported_names world_types keys i] resolve_def)
  next
    case False
    then have d: "drop i supported_names = supported_names ! i # drop (i + 1) supported_names"
      by (simp add: Cons_nth_drop_Suc)
    show ?thesis
    proof (cases "primary_match world_types (supported_names ! i)")
      case (Some t)
      with False d show ?thesis
        using primary_match_position[of world_types "supported_names ! i"]
        by (simp add: find_axis_name_loop.simps[of supported_names world_types keys i] resolve_def
              split: if_splits)
    next
      case None
      note pm = None
      show ?thesis
      proof (cases "extra_match keys (supported_names ! i)")
        case True
        with False d pm show ?thesis
          using primary_match_position[of world_types "supported_names ! i"]
          by (auto simp: find_axis_name_loop.simps[of supported_names world_types keys i] resolve_def
                extra_match_def split: if_splits option.splits)
      next
        case False
        note em = False
        have "find_axis_name_loop supported_names world_types keys i
                = find_axis_name_loop supported_names world_types keys (i + 1)"
          using \<open>\<not> length supported_names \<le> i\<close> pm em
            primary_match_position[of world_types "supported_names ! i"]
          by (auto simp: find_axis_name_loop.simps[of supported_names world_types keys i]
                extra_match_def split: if_splits option.splits)
        also have "\<dots> = resolve world_types keys (drop (i + 1) supported_names)"
          using \<open>\<not> length supported_names \<le> i\<close> pm em
            primary_match_position[of world_types "supported_names ! i"]
          by (intro "1.IH"[OF _ refl refl refl])
             (auto simp: extra_match_def split: if_splits option.splits)
        also have "\<dots> = resolve world_types keys (drop i supported_names)"
          using pm em d by (simp add: resolve_def)
        finally show ?thesis .
      qed
    qed
  qed
qed

text \<open>
  Claim C5. \<^verbatim>\<open>_find_axis_name\<close> computes the resolution of the specification: it takes
  the first synonym, in declared order, that either is contained in exactly one world
  axis type of the primary coordinate system or is a key of the extra coordinates; the
  binding is the world axis type with the location \<open>wcs\<close> in the first case (also when
  the synonym is a key as well), the synonym with the location \<open>extra_coords\<close>
  otherwise; there is no binding when no synonym matches.
\<close>

theorem find_axis_name_resolves:
  "find_axis_name self supported_names
     = resolve (world_axis_physical_types self) (map_option dom (extra_coords self)) supported_names"
  by (simp add: find_axis_name_def find_axis_name_loop_resolve)

lemma Raster_init_fields:
  "data (Raster_init d w c x u un) = d"
  "world_axis_physical_types (Raster_init d w c x u un) = w"
  "axis_world_coords (Raster_init d w c x u un) = c"
  "extra_coords (Raster_init d w c x u un) = x"
  "unit (Raster_init d w c x u un) = u"
  "uncertainty (Raster_init d w c x u un) = un"
  by (simp_all add: Raster_init_def Let_def)

lemma Raster_init_names:
  "longitude_name (Raster_init d w c x u un)
     = find_axis_name_loop SUPPORTED_LONGITUDE_NAMES w (map_option dom x) 0"
  "latitude_name (Raster_init d w c x u un)
     = find_axis_name_loop SUPPORTED_LATITUDE_NAMES w (map_option dom x) 0"
  "spectral_name (Raster_init d w c x u un)
     = find_axis_name_loop SUPPORTED_SPECTRAL_NAMES w (map_option dom x) 0"
  "time_name (Raster_init d w c x u un)
     = find_axis_name_loop SUPPORTED_TIME_NAMES w (map_option dom x) 0"
  "exposure_time_name (Raster_init d w c x u un)
     = find_axis_name_loop SUPPORTED_EXPOSURE_NAMES w (map_option dom x) 0"
  by (simp_all add: Raster_init_def Let_def find_axis_name_def)

theorem find_axis_name_resolves_witness:
  "find_axis_name (example_raster\<lparr>world_axis_physical_types := [''time'', ''em.wl''],
                                 extra_coords := Some [''time'' \<mapsto> example_entry]\<rparr>)
     SUPPORTED_TIME_NAMES = Some (''time'', ''wcs'')
   \<and> find_axis_name example_raster [''exposure time''] = Some (''exposure time'', ''extra_coords'')
   \<and> find_axis_name example_raster [] = None"
proof -
  have 1: "resolve [''time'', ''em.wl''] (Some {''time''}) SUPPORTED_TIME_NAMES
             = Some (''time'', ''wcs'')"
    by (simp add: resolve_def primary_match_def extra_match_def SUPPORTED_TIME_NAMES_def
          with_case_variants_def)
  have 2: "resolve [''custom:pos.helioprojective.lon'', ''em.wl''] (Some {''exposure time''})
             [''exposure time''] = Some (''exposure time'', ''extra_coords'')"
    by (simp add: resolve_def primary_match_def extra_match_def)
  have w: "world_axis_physical_types example_raster = [''custom:pos.helioprojective.lon'', ''em.wl'']"
    and k: "map_option dom (extra_coords example_raster) = Some {''exposure time''}"
    by (simp_all add: example_raster_def Raster_init_fields)
  show ?thesis
    using find_axis_name_resolves[of "example_raster\<lparr>world_axis_physical_types := [''time'', ''em.wl''],
                                 extra_coords := Some [''time'' \<mapsto> example_entry]\<rparr>" SUPPORTED_TIME_NAMES]
      find_axis_name_resolves[of example_raster "[''exposure time'']"]
      find_axis_name_resolves[of example_raster "[]"]
      1 2 w k
    by (simp add: resolve_def)
qed

section \<open>The coordinate properties of a Raster\<close>

lemma property_bound:
  "spectral_name self = Some (axis_name, coord_loc) \<Longrightarrow>
     spectral self = get_axis_coord self axis_name coord_loc"
  "time_name self = Some (axis_name, coord_loc) \<Longrightarrow>
     time self = get_axis_coord self axis_name coord_loc"
  "exposure_time_name self = Some (axis_name, coord_loc) \<Longrightarrow>
     exposure_time self = get_axis_coord self axis_name coord_loc"
  "longitude_name self = Some (axis_name, coord_loc) \<Longrightarrow>
     lon self = get_axis_coord self axis_name coord_loc"
  "latitude_name self = Some (axis_name, coord_loc) \<Longrightarrow>
     lat self = get_axis_coord self axis_name coord_loc"
  by (simp_all add: spectral_def time_def exposure_time_def lon_def lat_def)

lemma property_absent:
  "spectral_name self = None \<Longrightarrow>
     spectral self = Inl (ValueError (''Spectral'' @ AXIS_NOT_FOUND_ERROR @
                                      format_list SUPPORTED_SPECTRAL_NAMES))"
  "exposure_time_name self = None \<Longrightarrow>
     exposure_time self = Inl (ValueError (''Exposure time'' @ AXIS_NOT_FOUND_ERROR @
                                            format_list SUPPORTED_EXPOSURE_NAMES))"
  "longitude_name self = None \<Longrightarrow>
     lon self = Inl (ValueError (''Longitude'' @ AXIS_NOT_FOUND_ERROR @
                                  format_list SUPPORTED_LONGITUDE_NAMES))"
  by (simp_all add: spectral_def exposure_time_def lon_def)

lemma example_raster_names:
  "time_name example_raster = None"
  "latitude_name example_raster = None"
  "exposure_time_name example_raster = Some (''exposure time'', ''extra_coords'')"
  by (simp_all add: example_raster_def Raster_init_names find_axis_name_loop_resolve
        resolve_def primary_match_def extra_match_def with_case_variants_def str_upper_def
        str_upper_char_def str_lower_char_def
        SUPPORTED_TIME_NAMES_def SUPPORTED_LATITUDE_NAMES_def SUPPORTED_EXPOSURE_NAMES_def)

text \<open>
  Claim C4 fails for two of the five properties. The example raster has no time and no
  latitude coordinate; reading \<^verbatim>\<open>time\<close> or \<^verbatim>\<open>lat\<close> raises NameError for the undefined
  name of the list, and no ValueError with the role and the supported names.
\<close>

theorem time_and_lat_raise_NameError:
  "time_name example_raster = None
   \<and> time example_raster = Inl (NameError ''SUPPORTED_TIMES_NAMES'')
   \<and> latitude_name example_raster = None
   \<and> lat example_raster = Inl (NameError ''SUPPORTED_LATITUDE_NAME'')"
  by (simp add: time_def lat_def example_raster_names)

section \<open>The exposure time correction of a Raster\<close>

lemma insert_newaxes_1D:
  "shape t = [n] \<Longrightarrow>
   insert_newaxes k t = Inr \<lparr>shape = n # replicate k 1,
                             elem = (\<lambda>idx. elem t (take 1 idx @ drop (Suc k) idx))\<rparr>"
  by (simp add: insert_newaxes_def)

lemma get_exposure_time_s_1D:
  assumes "exposure_time self = Inr q" and "to_seconds_value q = Inr t" and "shape t = [n]"
  shows "get_exposure_time_s self =
           (if length (dimensions self) = 1 then Inr t
            else if length (dimensions self) = 2 then insert_newaxes 1 t
            else if length (dimensions self) = 3 then insert_newaxes 2 t
            else Inl (ValueError ''Raster dimensions must be 2 or 3. Dimensions=1''))"
  using assms
  by (simp add: get_exposure_time_s_def np_isscalar_def dimensions_shape_def format_nat.simps)

text \<open>
  Claim C8. For an exposure time that is a 1-D array of \<open>n\<close> values, the reshape
  depends on the number of dimensions of the raster: with one dimension the array is
  used as it is, with two it gets the shape \<open>[n, 1]\<close>, with three the shape
  \<open>[n, 1, 1]\<close>, the values staying along the first axis; with four or more the
  correction fails with the ValueError on the dimensions, whatever \<open>undo\<close> and
  \<open>force\<close> are.
\<close>

theorem exposure_time_reshaped_by_rank:
  assumes "exposure_time self = Inr q" and "to_seconds_value q = Inr t" and "shape t = [n]"
  shows "(length (dimensions self) = 1 \<longrightarrow> get_exposure_time_s self = Inr t)
    \<and> (length (dimensions self) = 2 \<longrightarrow>
         (\<exists>t'. get_exposure_time_s self = Inr t' \<and> shape t' = [n, 1] \<and>
               (\<forall>i. elem t' [i, 0] = elem t [i])))
    \<and> (length (dimensions self) = 3 \<longrightarrow>
         (\<exists>t'. get_exposure_time_s self = Inr t' \<and> shape t' = [n, 1, 1] \<and>
               (\<forall>i. elem t' [i, 0, 0] = elem t [i])))
    \<and> (4 \<le> length (dimensions self) \<longrightarrow>
         apply_exposure_time_correction self undo force
           = Inl (ValueError ''Raster dimensions must be 2 or 3. Dimensions=1''))"
  using get_exposure_time_s_1D[OF assms] assms(3)
  by (auto simp: insert_newaxes_1D apply_exposure_time_correction_def numeral_eq_Suc)

lemma example_with_shape_fields:
  "exposure_time_name (example_with_shape s) = Some (''exposure time'', ''extra_coords'')"
  "extra_coords (example_with_shape s)
     = Some [''exposure time'' \<mapsto>
               \<lparr>coord_axis = Some 0,
                coord_value = \<lparr>q_value = example_exposure, q_unit = u_s\<rparr>\<rparr>]"
  "unit (example_with_shape s) = u_photon"
  "data (example_with_shape s) = \<lparr>shape = s, elem = (\<lambda>idx. 6)\<rparr>"
  "uncertainty (example_with_shape s) = Some \<lparr>shape = s, elem = (\<lambda>idx. 1)\<rparr>"
  using example_raster_names(3)
  by (simp_all add: example_with_shape_def)
     (simp_all add: example_raster_def example_entry_def Raster_init_fields)

lemma example_exposure_time:
  "exposure_time (example_with_shape s)
     = Inr (Some \<lparr>q_value = example_exposure, q_unit = u_s\<rparr>)"
  "to_seconds_value (Some \<lparr>q_value = example_exposure, q_unit = u_s\<rparr>) = Inr example_exposure"
  "shape example_exposure = [2]"
  "dimensions (example_with_shape s) = s"
proof -
  show "exposure_time (example_with_shape s)
     = Inr (Some \<lparr>q_value = example_exposure, q_unit = u_s\<rparr>)"
    by (simp add: exposure_time_def get_axis_coord_def example_with_shape_fields)
  show "to_seconds_value (Some \<lparr>q_value = example_exposure, q_unit = u_s\<rparr>) = Inr example_exposure"
    by (simp add: to_seconds_value_def)
  show "shape example_exposure = [2]"
    by (simp add: example_exposure_def)
  show "dimensions (example_with_shape s) = s"
    by (simp add: dimensions_def example_with_shape_fields)
qed

theorem exposure_time_reshaped_by_rank_witness:
  "get_exposure_time_s (example_with_shape [2]) = Inr example_exposure
   \<and> (\<exists>t'. get_exposure_time_s (example_with_shape [2, 3]) = Inr t' \<and> shape t' = [2, 1] \<and>
          (\<forall>i. elem t' [i, 0] = elem example_exposure [i]))
   \<and> (\<exists>t'. get_exposure_time_s (example_with_shape [2, 3, 4]) = Inr t' \<and> shape t' = [2, 1, 1] \<and>
          (\<forall>i. elem t' [i, 0, 0] = elem example_exposure [i]))
   \<and> apply_exposure_time_correction (example_with_shape [2, 3, 4, 5]) False True
       = Inl (ValueError ''Raster dimensions must be 2 or 3. Dimensions=1'')"
  using exposure_time_reshaped_by_rank[OF example_exposure_time(1,2,3), of "[2]"]
    exposure_time_reshaped_by_rank[OF example_exposure_time(1,2,3), of "[2, 3]"]
    exposure_time_reshaped_by_rank[OF example_exposure_time(1,2,3), of "[2, 3, 4]"]
    exposure_time_reshaped_by_rank[OF example_exposure_time(1,2,3), of "[2, 3, 4, 5]" False True]
  by (simp add: example_exposure_time(4))

lemma broadcast_shapes_column:
  "broadcast_shapes [n, m] [n, Suc 0] = Some [n, m]"
  by (simp add: broadcast_shapes_def)

lemma broadcast_shapes_same: "broadcast_shapes [n, m] [n, m] = Some [n, m]"
  by (simp add: broadcast_shapes_def)

lemma bindex_column: "i < n \<Longrightarrow> bindex [n, Suc 0] [i, j] = [i, 0]"
  by (auto simp: bindex_def)

lemma valid_index_2D: "i < n \<Longrightarrow> j < m \<Longrightarrow> valid_index [n, m] [i, j]"
  by (simp add: valid_index_def)

text \<open>
  Claim C9. For a raster with 2-D data of shape \<open>[n, m]\<close>, an uncertainty of the same
  shape and an exposure time that is a 1-D array of \<open>n\<close> values in seconds, applying
  the correction (with the guard passed) returns a raster whose data at \<open>[i, j]\<close> is
  the old data at \<open>[i, j]\<close> divided by the exposure time at \<open>[i]\<close>, for all \<open>i < n\<close>
  and \<open>j < m\<close>; the uncertainty is divided in the same way and the unit is divided by
  the second.
\<close>

theorem exposure_time_divides_rows:
  fixes self :: "('a::{inverse,times}) Raster"
  assumes "exposure_time self = Inr q" and "to_seconds_value q = Inr exposure"
    and "shape exposure = [n]" and "shape (data self) = [n, m]"
    and "uncertainty self = Some u" and "shape u = [n, m]"
    and "force \<or> Second \<notin> set (bases (decompose (unit self)))"
  shows "\<exists>result new_uncertainty.
           apply_exposure_time_correction self False force = Inr result \<and>
           shape (data result) = [n, m] \<and>
           (\<forall>i<n. \<forall>j<m. elem (data result) [i, j] = elem (data self) [i, j] / elem exposure [i]) \<and>
           uncertainty result = Some new_uncertainty \<and>
           (\<forall>i<n. \<forall>j<m. elem new_uncertainty [i, j] = elem u [i, j] / elem exposure [i]) \<and>
           unit result = unit_div (unit self) u_s"
proof -
  define t where "t = \<lparr>shape = n # replicate 1 1,
                         elem = (\<lambda>idx. elem exposure (take 1 idx @ drop (Suc 1) idx))\<rparr>"
  have s: "get_exposure_time_s self = Inr t"
    using get_exposure_time_s_1D[OF assms(1,2,3)] assms(3,4)
    by (simp add: dimensions_def insert_newaxes_1D t_def)
  have b: "\<forall>a\<in>set [data self, u]. broadcast_shapes (shape a) (shape t) \<noteq> None"
    using assms(4,6) by (simp add: t_def broadcast_shapes_column)
  have c: "calculate_exposure_time_correction [data self, u] (unit self) t force
             = Inr ([broadcast_with (/) t (data self), broadcast_with (/) t u],
                    unit_div (unit self) u_s)"
    using calculate_divides[OF _ b, of force "unit self"] assms(7) by auto
  let ?result = "Raster_init (broadcast_with (/) t (data self)) (world_axis_physical_types self)
                   (axis_world_coords self) (extra_coords self) (unit_div (unit self) u_s)
                   (Some (broadcast_with (/) t u))"
  have r: "apply_exposure_time_correction self False force = Inr ?result"
    using s c assms(5) by (simp add: apply_exposure_time_correction_def)
  have e: "elem (broadcast_with (/) t a) [i, j] = elem a [i, j] / elem exposure [i]"
    if "shape a = [n, m]" "i < n" "j < m" for a :: "'a ndarray" and i j
    using that by (simp add: broadcast_with_def t_def bindex_column bindex_self valid_index_2D)
  have "shape (data ?result) = [n, m]"
    using assms(4) by (simp add: Raster_init_fields broadcast_with_def t_def broadcast_shapes_column)
  moreover have "\<forall>i<n. \<forall>j<m. elem (data ?result) [i, j] = elem (data self) [i, j] / elem exposure [i]"
    using e[OF assms(4)] by (simp add: Raster_init_fields)
  moreover have "uncertainty ?result = Some (broadcast_with (/) t u)"
    by (simp add: Raster_init_fields)
  moreover have "\<forall>i<n. \<forall>j<m. elem (broadcast_with (/) t u) [i, j] = elem u [i, j] / elem exposure [i]"
    using e[OF assms(6)] by simp
  moreover have "unit ?result = unit_div (unit self) u_s"
    by (simp add: Raster_init_fields)
  ultimately show ?thesis using r by blast
qed

theorem exposure_time_divides_rows_witness:
  "\<exists>result new_uncertainty.
     apply_exposure_time_correction (example_with_shape [2, 3]) False False = Inr result \<and>
     shape (data result) = [2, 3] \<and>
     elem (data result) [0, 2] = 3 \<and> elem (data result) [1, 2] = 3 / 2 \<and>
     uncertainty result = Some new_uncertainty \<and>
     elem new_uncertainty [1, 0] = 1 / 4 \<and>
     unit result = unit_div u_photon u_s"
proof -
  have g: "False \<or> Second \<notin> set (bases (decompose (unit (example_with_shape [2, 3]))))"
    by (simp add: example_with_shape_fields Second_in_bases decompose_def u_photon_def base_def)
  have d: "shape (data (example_with_shape [2, 3])) = [2, 3]"
    and u: "uncertainty (example_with_shape [2, 3]) = Some \<lparr>shape = [2, 3], elem = (\<lambda>idx. 1)\<rparr>"
    and us: "shape \<lparr>shape = [2, 3], elem = (\<lambda>idx. 1::rat)\<rparr> = [2, 3]"
    by (simp_all add: example_with_shape_fields)
  from exposure_time_divides_rows[OF example_exposure_time(1,2,3) d u us g]
  obtain result new_uncertainty where r:
    "apply_exposure_time_correction (example_with_shape [2, 3]) False False = Inr result"
    "shape (data result) = [2, 3]"
    "\<forall>i<2. \<forall>j<3. elem (data result) [i, j]
        = elem (data (example_with_shape [2, 3])) [i, j] / elem example_exposure [i]"
    "uncertainty result = Some new_uncertainty"
    "\<forall>i<2. \<forall>j<3. elem new_uncertainty [i, j]
        = elem \<lparr>shape = [2, 3], elem = (\<lambda>idx. 1::rat)\<rparr> [i, j] / elem example_exposure [i]"
    "unit result = unit_div (unit (example_with_shape [2, 3])) u_s"
    by blast
  from r(3) have "elem (data result) [0, 2] = 3" "elem (data result) [1, 2] = 3 / 2"
    by (simp_all add: example_with_shape_fields example_exposure_def)
  moreover from r(5) have "elem new_uncertainty [1, 0] = 1 / 4"
    by (simp add: example_exposure_def)
  ultimately show ?thesis
    using r(1,2,4,6) by (auto simp: example_with_shape_fields)
qed

lemma get_axis_coord_errors:
  "get_axis_coord self axis_name coord_loc = Inl e \<Longrightarrow> e = TypeError \<or> e = KeyError axis_name"
  by (auto simp: get_axis_coord_def split: if_splits option.splits)

lemma exposure_time_errors:
  "exposure_time self = Inl e \<Longrightarrow>
     e = TypeError \<or> (\<exists>k. e = KeyError k) \<or>
     e = ValueError (''Exposure time'' @ AXIS_NOT_FOUND_ERROR @ format_list SUPPORTED_EXPOSURE_NAMES)"
  by (auto simp: exposure_time_def split: option.splits dest: get_axis_coord_errors)

lemma to_seconds_value_errors:
  "to_seconds_value q = Inl e \<Longrightarrow> e = AttributeError ''to'' \<or> e = UnitConversionError"
  by (auto simp: to_seconds_value_def split: option.splits if_splits)

lemma insert_newaxes_errors: "insert_newaxes k a = Inl e \<Longrightarrow> e = IndexError"
  by (auto simp: insert_newaxes_def split: list.splits)

lemma guard_messages_other:
  "''Exposure time'' @ AXIS_NOT_FOUND_ERROR @ x \<noteq> APPLY_EXPOSURE_TIME_ERROR"
  "''Exposure time'' @ AXIS_NOT_FOUND_ERROR @ x \<noteq> UNDO_EXPOSURE_TIME_ERROR"
  "''Raster dimensions must be 2 or 3. Dimensions='' @ y \<noteq> APPLY_EXPOSURE_TIME_ERROR"
  "''Raster dimensions must be 2 or 3. Dimensions='' @ y \<noteq> UNDO_EXPOSURE_TIME_ERROR"
  by (simp_all add: AXIS_NOT_FOUND_ERROR_def APPLY_EXPOSURE_TIME_ERROR_def
        UNDO_EXPOSURE_TIME_ERROR_def)

lemma get_exposure_time_s_errors:
  assumes "get_exposure_time_s self = Inl e"
  shows "e \<noteq> ValueError APPLY_EXPOSURE_TIME_ERROR \<and> e \<noteq> ValueError UNDO_EXPOSURE_TIME_ERROR"
proof (cases "exposure_time self")
  case (Inl e')
  with assms have "e = e'" by (simp add: get_exposure_time_s_def)
  with Inl exposure_time_errors[of self e] show ?thesis
    using guard_messages_other(1,2) by auto
next
  case q: (Inr q)
  show ?thesis
  proof (cases "to_seconds_value q")
    case (Inl e')
    with q assms have "e = e'" by (simp add: get_exposure_time_s_def)
    with Inl to_seconds_value_errors[of q e] show ?thesis by auto
  next
    case (Inr t)
    with q assms have
      "e = IndexError \<or>
       e = ValueError (''Raster dimensions must be 2 or 3. Dimensions='' @
                       format_nat (length (dimensions_shape self)))"
      by (auto simp: get_exposure_time_s_def split: if_splits dest: insert_newaxes_errors)
    then show ?thesis
      using guard_messages_other(3,4) by auto
  qed
qed

text \<open>
  Claim C10. For a raster whose uncertainty is \<^verbatim>\<open>None\<close>, the correction fails, for both
  values of \<open>undo\<close> and of \<open>force\<close>: as soon as the exposure time has been obtained,
  with the AttributeError of \<^verbatim>\<open>self.uncertainty.array\<close>; in no case with the ValueError
  of a guard, and never with a result.
\<close>

theorem no_uncertainty_fails:
  assumes "uncertainty self = None"
  shows "(\<exists>e. apply_exposure_time_correction self undo force = Inl e)
    \<and> (\<forall>t. get_exposure_time_s self = Inr t \<longrightarrow>
           apply_exposure_time_correction self undo force = Inl (AttributeError ''array''))
    \<and> apply_exposure_time_correction self undo force \<noteq> Inl (ValueError APPLY_EXPOSURE_TIME_ERROR)
    \<and> apply_exposure_time_correction self undo force \<noteq> Inl (ValueError UNDO_EXPOSURE_TIME_ERROR)"
proof (cases "get_exposure_time_s self")
  case (Inl e)
  then have "apply_exposure_time_correction self undo force = Inl e"
    by (simp add: apply_exposure_time_correction_def)
  with Inl get_exposure_time_s_errors[OF Inl] show ?thesis by simp
next
  case (Inr t)
  with assms have "apply_exposure_time_correction self undo force = Inl (AttributeError ''array'')"
    by (simp add: apply_exposure_time_correction_def)
  with Inr show ?thesis by simp
qed

lemma without_uncertainty:
  "get_axis_coord (self\<lparr>uncertainty := x\<rparr>) axis_name coord_loc
     = get_axis_coord self axis_name coord_loc"
  "exposure_time (self\<lparr>uncertainty := x\<rparr>) = exposure_time self"
  "dimensions (self\<lparr>uncertainty := x\<rparr>) = dimensions self"
proof -
  show g: "get_axis_coord (self\<lparr>uncertainty := x\<rparr>) axis_name coord_loc
     = get_axis_coord self axis_name coord_loc" for axis_name coord_loc
    by (simp add: get_axis_coord_def)
  show "exposure_time (self\<lparr>uncertainty := x\<rparr>) = exposure_time self"
    by (simp add: exposure_time_def g cong: option.case_cong)
  show "dimensions (self\<lparr>uncertainty := x\<rparr>) = dimensions self"
    by (simp add: dimensions_def)
qed

theorem no_uncertainty_fails_witness:
  "uncertainty (example_with_shape [2, 3]\<lparr>uncertainty := None\<rparr>) = None
   \<and> apply_exposure_time_correction (example_with_shape [2, 3]\<lparr>uncertainty := None\<rparr>) False True
       = Inl (AttributeError ''array'')
   \<and> apply_exposure_time_correction (example_with_shape [2, 3]\<lparr>uncertainty := None\<rparr>) True False
       = Inl (AttributeError ''array'')"
proof -
  let ?r = "example_with_shape [2, 3]\<lparr>uncertainty := None\<rparr>"
  have u: "uncertainty ?r = None"
    by simp
  have "exposure_time ?r = Inr (Some \<lparr>q_value = example_exposure, q_unit = u_s\<rparr>)"
    by (simp add: without_uncertainty example_exposure_time)
  from get_exposure_time_s_1D[OF this example_exposure_time(2,3)]
  obtain t where t: "get_exposure_time_s ?r = Inr t"
    by (simp add: without_uncertainty example_exposure_time insert_newaxes_1D)
  from no_uncertainty_fails[OF u, of False True] no_uncertainty_fails[OF u, of True False] t u
  show ?thesis by blast
qed

section \<open>The axis types of a RasterSequence\<close>

lemma py_index_less: "py_index n i = Inr k \<Longrightarrow> k < n"
  by (auto simp: py_index_def split: if_splits)

lemma np_where_positions:
  "np_where (map P xs) = [filter (\<lambda>k. P (xs ! k)) [0..<length xs]]"
  unfolding np_where_def by (auto intro: filter_cong)

lemma np_setitem_mask_None:
  "np_setitem_mask (map f ks) (map (\<lambda>t. t = None) (map f ks)) v
     = map (\<lambda>k. case f k of None \<Rightarrow> v | Some l \<Rightarrow> Some l) ks"
  unfolding np_setitem_mask_def by (induction ks) (auto split: option.splits)

lemma count_None:
  "length (filter id (map (\<lambda>t. t = None) (map f ks))) = length (filter (\<lambda>k. f k = None) ks)"
  by (induction ks) auto

lemma types_after_assignments:
  assumes "py_index n c = Inr k0"
    and "\<forall>k<length wt. Some (wt ! k) = sp \<longrightarrow> k < n"
  shows "np_setitem (replicate n None) c (Some SLIT_STEP_AXIS_NAME) = Inr ((replicate n None)[k0 := Some SLIT_STEP_AXIS_NAME])"
    and "np_setitem_where ((replicate n None)[k0 := Some SLIT_STEP_AXIS_NAME])
           (np_where (map (\<lambda>world_type. Some world_type = sp) wt)) (Some SPECTRAL_AXIS_NAME)
         = Inr (map (\<lambda>k. if k < length wt \<and> Some (wt ! k) = sp then Some SPECTRAL_AXIS_NAME
                          else if k = k0 then Some SLIT_STEP_AXIS_NAME else None) [0..<n])"
proof -
  show "np_setitem (replicate n None) c (Some SLIT_STEP_AXIS_NAME) = Inr ((replicate n None)[k0 := Some SLIT_STEP_AXIS_NAME])"
    using assms(1) by (simp add: np_setitem_def)
  have "list_all (\<lambda>k. k < n) (filter (\<lambda>k. Some (wt ! k) = sp) [0..<length wt])"
    using assms(2) by (simp add: list_all_iff)
  then show "np_setitem_where ((replicate n None)[k0 := Some SLIT_STEP_AXIS_NAME])
           (np_where (map (\<lambda>world_type. Some world_type = sp) wt)) (Some SPECTRAL_AXIS_NAME)
         = Inr (map (\<lambda>k. if k < length wt \<and> Some (wt ! k) = sp then Some SPECTRAL_AXIS_NAME
                          else if k = k0 then Some SLIT_STEP_AXIS_NAME else None) [0..<n])"
    by (auto simp: np_setitem_where_def np_where_positions Let_def nth_list_update)
qed

text \<open>
  Claim C7, as amended. With a common axis that is an axis of the first cube, and the
  spectral world axis (if any) among the pixel axes, \<^verbatim>\<open>RasterSequence.__init__\<close> labels
  each pixel axis: spectral where the world axis type equals the spectral name of the
  cube, else slit step at the common axis, else nothing. If more than one axis is left
  without a label, construction fails with the ValueError on inconsistent axes. Otherwise
  it succeeds and every axis left without a label (there is at most one) gets the label
  position along slit; when no axis is left without a label, the labels stay as derived.
\<close>

theorem raster_sequence_axes_types:
  assumes "py_index (cube_ndim data0) c = Inr k0"
    and "\<forall>k<length (cube_world_axis_physical_types data0).
           Some (cube_world_axis_physical_types data0 ! k) = cube_spectral_name data0
           \<longrightarrow> k < cube_ndim data0"
    and "types = (\<lambda>k. if k < length (cube_world_axis_physical_types data0) \<and>
                          Some (cube_world_axis_physical_types data0 ! k) = cube_spectral_name data0
                       then Some SPECTRAL_AXIS_NAME
                       else if k = k0 then Some SLIT_STEP_AXIS_NAME else None)"
  shows "(1 < length (filter (\<lambda>k. types k = None) [0..<cube_ndim data0]) \<longrightarrow>
            RasterSequence_init (data0 # rest) (Some c) meta
              = Inl (ValueError INCONSISTENT_AXES_ERROR))
    \<and> (length (filter (\<lambda>k. types k = None) [0..<cube_ndim data0]) \<le> 1 \<longrightarrow>
            RasterSequence_init (data0 # rest) (Some c) meta
              = Inr (RasterSequence (data0 # rest) (Some c) meta
                       (map (\<lambda>k. case types k of None \<Rightarrow> Some SLIT_AXIS_NAME | Some l \<Rightarrow> Some l)
                            [0..<cube_ndim data0])))"
proof -
  note t = types_after_assignments[OF assms(1,2)]
  have w: "length (np_where (map (\<lambda>world_type. Some world_type = cube_spectral_name data0)
                               (cube_world_axis_physical_types data0))) = 1"
    by (simp add: np_where_def)
  have i: "RasterSequence_init (data0 # rest) (Some c) meta =
             (if 1 < length (filter (\<lambda>k. types k = None) [0..<cube_ndim data0])
              then Inl (ValueError INCONSISTENT_AXES_ERROR)
              else Inr (RasterSequence (data0 # rest) (Some c) meta
                       (map (\<lambda>k. case types k of None \<Rightarrow> Some SLIT_AXIS_NAME | Some l \<Rightarrow> Some l)
                            [0..<cube_ndim data0])))"
    unfolding RasterSequence_init_def
    by (simp only: list.case option.case sum.case Let_def t w if_True
          count_None np_setitem_mask_None assms(3) refl)
  then show ?thesis by auto
qed

lemma example_cube_fields:
  "cube_ndim example_cube = 3"
  "cube_world_axis_physical_types example_cube
     = [''custom:pos.helioprojective.lon'', ''custom:pos.helioprojective.lat'', ''em.wl'']"
  "cube_spectral_name example_cube = Some ''em.wl''"
  by (simp_all add: example_cube_def)

theorem raster_sequence_axes_types_witness:
  "RasterSequence_init [example_cube] (Some 0) ()
     = Inr (RasterSequence [example_cube] (Some 0) ()
              [Some ''slit step'', Some ''position along slit'', Some ''spectral''])
   \<and> RasterSequence_init [example_cube\<lparr>cube_ndim := 4\<rparr>] (Some 0) ()
       = Inl (ValueError INCONSISTENT_AXES_ERROR)"
proof -
  have 1: "py_index (cube_ndim example_cube) 0 = Inr 0"
    and 2: "\<forall>k<length (cube_world_axis_physical_types example_cube).
           Some (cube_world_axis_physical_types example_cube ! k) = cube_spectral_name example_cube
           \<longrightarrow> k < cube_ndim example_cube"
    by (simp_all add: example_cube_fields py_index_def)
  have 3: "py_index (cube_ndim (example_cube\<lparr>cube_ndim := 4\<rparr>)) 0 = Inr 0"
    and 4: "\<forall>k<length (cube_world_axis_physical_types (example_cube\<lparr>cube_ndim := 4\<rparr>)).
           Some (cube_world_axis_physical_types (example_cube\<lparr>cube_ndim := 4\<rparr>) ! k)
             = cube_spectral_name (example_cube\<lparr>cube_ndim := 4\<rparr>)
           \<longrightarrow> k < cube_ndim (example_cube\<lparr>cube_ndim := 4\<rparr>)"
    by (simp_all add: example_cube_fields py_index_def)
  have u3: "[0..<3] = [0, 1, 2]" and u4: "[0..<4] = [0, 1, 2, 3]"
    by (simp_all add: upt_rec)
  show ?thesis
    using raster_sequence_axes_types[OF 1 2 refl, of "[]" "()"]
      raster_sequence_axes_types[OF 3 4 refl, of "[]" "()"]
    by (simp add: example_cube_fields u3 u4 SLIT_STEP_AXIS_NAME_def SLIT_AXIS_NAME_def
          SPECTRAL_AXIS_NAME_def)
qed

text \<open>
  With no axis left without a label the construction does not fail: cubes of slit
  steps by spectral bins, with the common axis 0, get the labels slit step and spectral.
\<close>

theorem raster_sequence_no_unlabeled_counterexample:
  "RasterSequence_init [example_cube_2D] (Some 0) ()
     = Inr (RasterSequence [example_cube_2D] (Some 0) () [Some ''slit step'', Some ''spectral''])"
proof -
  have u2: "[0..<2] = [0, 1]" by (simp add: upt_rec)
  show ?thesis
    by (simp add: RasterSequence_init_def example_cube_2D_def np_setitem_def py_index_def
          np_where_def np_setitem_where_def np_setitem_mask_def u2
          SLIT_STEP_AXIS_NAME_def SLIT_AXIS_NAME_def SPECTRAL_AXIS_NAME_def)
qed

section \<open>Slicing a RasterSequence as a raster\<close>

lemma np_getitem_mask_positions:
  assumes "w \<noteq> []" and "length w = length a"
  shows "np_getitem_mask a w = Inr (map ((!) a) (filter (\<lambda>k. w ! k) [0..<length a]))"
proof -
  have "map fst (filter snd (zip a w)) = map ((!) a) (filter (\<lambda>k. w ! k) [0..<length a])"
    using assms(2)
  proof (induction a arbitrary: w rule: rev_induct)
    case Nil
    then show ?case by simp
  next
    case (snoc x xs)
    then obtain w' b where w: "w = w' @ [b]" "length w' = length xs"
      by (cases w rule: rev_cases) auto
    have "filter (\<lambda>k. (w' @ [b]) ! k) [0..<length xs] = filter (\<lambda>k. w' ! k) [0..<length xs]"
      using w(2) by (intro filter_cong) (auto simp: nth_append)
    moreover have "map ((!) (xs @ [x])) (filter (\<lambda>k. w' ! k) [0..<length xs])
                     = map ((!) xs) (filter (\<lambda>k. w' ! k) [0..<length xs])"
      by (intro map_cong) (auto simp: nth_append)
    ultimately show ?case
      using w snoc.IH[of w'] by (auto simp: nth_append)
  qed
  with assms show ?thesis by (simp add: np_getitem_mask_def)
qed

lemma slice_scan_axis_types_keeps:
  assumes "item \<noteq> [] \<or> types \<noteq> []" and "length item \<le> length types"
  shows "slice_scan_axis_types types item
           = Inr (map ((!) types)
                    (filter (\<lambda>k. \<not> (k < length item \<and> is_Integral (item ! k)))
                            [0..<length types]))"
proof -
  let ?w = "map (\<lambda>axis_item. \<not> is_Integral axis_item) item
              @ replicate (length types - length item) True"
  have "?w \<noteq> []" "length ?w = length types"
    using assms by auto
  then have "np_getitem_mask types ?w
               = Inr (map ((!) types) (filter (\<lambda>k. ?w ! k) [0..<length types]))"
    by (rule np_getitem_mask_positions)
  moreover have "filter (\<lambda>k. ?w ! k) [0..<length types]
                   = filter (\<lambda>k. \<not> (k < length item \<and> is_Integral (item ! k))) [0..<length types]"
    using assms(2) by (intro filter_cong) (auto simp: nth_append)
  ultimately show ?thesis
    by (simp add: slice_scan_axis_types_def Let_def)
qed

lemma py_getitem_tail:
  assumes "0 \<le> c" and "nat c + 1 < length items"
  shows "py_getitem (drop 1 items) c = Inr (items ! (nat c + 1))"
proof -
  from assms have "py_index (length (drop 1 items)) c = Inr (nat c)"
    by (auto simp: py_index_def)
  moreover from assms(2) have "drop 1 items ! nat c = items ! (nat c + 1)"
    by (simp add: add.commute)
  ultimately show ?thesis by (simp add: py_getitem_def)
qed

text \<open>
  Claim C6, as amended. Take a RasterSequence with a common axis \<open>c \<ge> 0\<close>, sliced
  as a raster with a tuple, where the base class returns a RasterSequence. If the tuple
  has an entry for the slit step axis (position \<open>c + 1\<close> of the tuple) and that entry is
  an integer, the result is a plain SpectrogramSequence of the sliced cubes with no
  common axis. If that entry is not an integer, or the tuple has at most \<open>c\<close> entries,
  the result is the RasterSequence that the base class returned, with the labels of the
  original re-sliced: the labels of the axes whose entry is an integer are dropped, the
  labels of all other axes, addressed or not, are kept in order.
\<close>

theorem slice_as_raster:
  assumes "seq = RasterSequence d (Some c) m types"
    and "base_getitem seq (Tuple items) = Inr (ASequence (RasterSequence d' c' m' types'))"
    and "0 \<le> c"
  shows "(nat c + 1 < length items \<and> is_Integral (items ! (nat c + 1)) \<longrightarrow>
            SequenceSlicer_getitem base_getitem seq (Tuple items)
              = Inr (ASequence (SpectrogramSequence d' None m')))
    \<and> ((nat c + 1 < length items \<and> \<not> is_Integral (items ! (nat c + 1))
          \<or> int (length items) \<le> c \<and> types \<noteq> [])
        \<and> length items \<le> length types + 1 \<longrightarrow>
            SequenceSlicer_getitem base_getitem seq (Tuple items)
              = Inr (ASequence (RasterSequence d' c' m'
                      (map ((!) types)
                         (filter (\<lambda>k. \<not> (k + 1 < length items \<and> is_Integral (items ! (k + 1))))
                                 [0..<length types])))))"
proof (intro conjI impI)
  assume a: "nat c + 1 < length items \<and> is_Integral (items ! (nat c + 1))"
  then have "py_getitem (drop 1 items) c = Inr (items ! (nat c + 1))"
    using py_getitem_tail[OF assms(3)] by blast
  with a assms show "SequenceSlicer_getitem base_getitem seq (Tuple items)
              = Inr (ASequence (SpectrogramSequence d' None m'))"
    by (auto simp: SequenceSlicer_getitem_def)
next
  assume a: "(nat c + 1 < length items \<and> \<not> is_Integral (items ! (nat c + 1))
          \<or> int (length items) \<le> c \<and> types \<noteq> [])
        \<and> length items \<le> length types + 1"
  then have l: "drop 1 items \<noteq> [] \<or> types \<noteq> []" "length (drop 1 items) \<le> length types"
    by auto
  have f: "filter (\<lambda>k. \<not> (k < length (drop 1 items) \<and> is_Integral (drop 1 items ! k)))
             [0..<length types]
           = filter (\<lambda>k. \<not> (k + 1 < length items \<and> is_Integral (items ! (k + 1))))
             [0..<length types]"
    by (intro filter_cong) (auto simp: add.commute)
  have s: "slice_scan_axis_types types (drop 1 items)
             = Inr (map ((!) types)
                      (filter (\<lambda>k. \<not> (k + 1 < length items \<and> is_Integral (items ! (k + 1))))
                              [0..<length types]))"
    using slice_scan_axis_types_keeps[OF l] f by simp
  have g: "(if int (length items) > c
            then (case py_getitem (drop 1 items) c of
                    Inl e \<Rightarrow> Inl e
                  | Inr axis_item \<Rightarrow> Inr (is_Integral axis_item))
            else Inr False) = Inr False"
  proof (cases "int (length items) > c")
    case True
    with a have b: "nat c + 1 < length items" "\<not> is_Integral (items ! (nat c + 1))"
      by auto
    then have "py_getitem (drop 1 items) c = Inr (items ! (nat c + 1))"
      using py_getitem_tail[OF assms(3)] by blast
    with b True show ?thesis by simp
  next
    case False
    then show ?thesis by simp
  qed
  show "SequenceSlicer_getitem base_getitem seq (Tuple items)
              = Inr (ASequence (RasterSequence d' c' m'
                      (map ((!) types)
                         (filter (\<lambda>k. \<not> (k + 1 < length items \<and> is_Integral (items ! (k + 1))))
                                 [0..<length types]))))"
    unfolding SequenceSlicer_getitem_def
    using assms(2)
    by (simp only: assms(1) sum.case index.case sliced.case isinstance_of.simps if_True
          seq_common_axis.simps seq_data.simps seq_meta.simps option.case g s bool.case
          sequence.case)
qed

theorem slice_as_raster_witness:
  "SequenceSlicer_getitem example_base_getitem example_sequence
     (Tuple [Slice None None None, Integral 1])
     = Inr (ASequence (SpectrogramSequence [example_cube_2D, example_cube_2D] None ()))
   \<and> SequenceSlicer_getitem example_base_getitem example_sequence
       (Tuple [Slice None None None, Slice None None None, Integral 2])
       = Inr (ASequence (RasterSequence [example_cube_2D, example_cube_2D] (Some 0) ()
                [Some ''slit step'', Some ''spectral'']))"
proof -
  have b: "example_base_getitem example_sequence (Tuple (Slice None None None # cube_item))
             = Inr (ASequence (RasterSequence [example_cube_2D, example_cube_2D] (Some 0) ()
                      [Some ''slit step'', Some ''position along slit'', Some ''spectral'']))"
    for cube_item
    by (simp add: example_base_getitem_def)
  have u3: "[0..<3] = [0, 1, 2]"
    by (simp add: upt_rec)
  have z: "(0::int) \<le> 0"
    by simp
  show ?thesis
    using slice_as_raster[where base_getitem = example_base_getitem and seq = example_sequence
        and items = "[Slice None None None, Integral 1]", OF example_sequence_def b z]
      slice_as_raster[where base_getitem = example_base_getitem and seq = example_sequence
        and items = "[Slice None None None, Slice None None None, Integral 2]",
        OF example_sequence_def b z]
    by (simp add: u3)
qed

text \<open>
  The result is not always a sequence, and not every other tuple keeps the
  RasterSequence. When the base class returns a single cube (an integer at the position
  of the scans), the cube is returned as it is, whatever the entry of the slit step
  axis. And a tuple of exactly \<open>c + 1\<close> entries passes the test on its length, but has
  no entry for the slit step axis: reading it raises IndexError.
\<close>

lemma slice_as_raster_cube:
  "base_getitem seq item = Inr (ACube cube) \<Longrightarrow>
     SequenceSlicer_getitem base_getitem seq item = Inr (ACube cube)"
  by (simp add: SequenceSlicer_getitem_def split: index.splits)

lemma slice_as_raster_short_tuple:
  assumes "base_getitem (RasterSequence d (Some c) m types) (Tuple items)
             = Inr (ASequence (RasterSequence d' c' m' types'))"
    and "0 \<le> c" and "length items = nat c + 1"
  shows "SequenceSlicer_getitem base_getitem (RasterSequence d (Some c) m types) (Tuple items)
           = Inl IndexError"
proof -
  from assms(2,3) have "py_getitem (drop 1 items) c = Inl IndexError"
    by (auto simp: py_getitem_def py_index_def)
  moreover from assms(2,3) have "int (length items) > c" by simp
  ultimately show ?thesis
    using assms(1) by (simp add: SequenceSlicer_getitem_def)
qed

theorem slice_as_raster_counterexample:
  "SequenceSlicer_getitem example_base_getitem example_sequence
     (Tuple [Integral 0, Integral 1]) = Inr (ACube example_cube_2D)
   \<and> SequenceSlicer_getitem example_base_getitem example_sequence
       (Tuple [Slice None None None]) = Inl IndexError"
  by (simp add: SequenceSlicer_getitem_def example_base_getitem_def example_sequence_def
        py_getitem_def py_index_def)

end
